theory Spec2Isabelle
  imports Main
begin

section \<open>Data model\<close>

text \<open>
  The task service of the repository (\<^verbatim>\<open>src/server/services/task.service.ts\<close>) is
  embedded as state-passing functions over an \<open>Environment\<close>. Messages that the source
  writes in Chinese are given as named constants with an English rendering, since this
  theory is plain ASCII.
\<close>

datatype TaskType = Keepalive | Notification

datatype Status = Success | Failure

text \<open>A value thrown in JavaScript: an \<open>Error\<close> object with its message, or anything else.\<close>

datatype thrown = Error string | NonError

text \<open>The outcome of an awaited call: it resolves to a value or rejects with a thrown value.\<close>

datatype 'a promise = Resolved 'a | Rejected thrown

record KeepaliveConfig =
  url :: string
  http_method :: string
  headers :: "(string \<times> string) list option"
  body :: "string option"
  timeout :: "int option"

record NotifyXConfig =
  apiKey :: string
  channelId :: "string option"
  nx_title :: "string option"
  recipients :: "string list option"

record NotificationConfig =
  message :: string
  title :: "string option"
  priority :: "string option"
  notifyxConfig :: NotifyXConfig

text \<open>
  The source keeps both configuration shapes in one slot (\<^verbatim>\<open>KeepaliveConfig | NotificationConfig\<close>)
  and casts after looking at the task's type; the slot is a tagged union here.
\<close>

datatype TaskConfig = KeepaliveCfg KeepaliveConfig | NotificationCfg NotificationConfig

record Task =
  ident :: string
  name :: string
  task_type :: TaskType
  schedule :: string
  config :: TaskConfig
  enabled :: bool
  created_by :: string
  last_executed :: "int option"
  last_status :: "Status option"

text \<open>\<^verbatim>\<open>Partial<Task>\<close>: the fields an update may set.\<close>

record TaskPatch =
  set_name :: "string option"
  set_schedule :: "string option"
  set_config :: "TaskConfig option"
  set_enabled :: "bool option"
  set_last_executed :: "int option"
  set_last_status :: "Status option"

definition no_patch :: TaskPatch where
  "no_patch = \<lparr>set_name = None, set_schedule = None, set_config = None, set_enabled = None,
     set_last_executed = None, set_last_status = None\<rparr>"

text \<open>
  The creation and modification times of a task and the random id that the source draws
  for each execution log play no part in what follows and are left out. Times are
  milliseconds as integers; a formatted time (\<^verbatim>\<open>toISOString\<close>) is the same integer.
\<close>

record ExecutionResult =
  success :: bool
  responseTime :: int
  statusCode :: "nat option"
  error :: "string option"
  timestamp :: int

datatype LogType = Execution | System | Audit

record ExecutionLog =
  task_id :: "string option"
  log_type :: LogType
  execution_time :: int
  status :: Status
  response_time :: "int option"
  status_code :: "nat option"
  error_message :: "string option"
  details :: "ExecutionResult option"

text \<open>The uniform \<^verbatim>\<open>{ success, data?, error? }\<close> result of the storage layer and of the service.\<close>

record 'a Result =
  r_success :: bool
  r_data :: "'a option"
  r_error :: "string option"

record RequestBody =
  channel_id :: "string option"
  p_title :: string
  p_message :: string
  p_priority :: string
  p_recipients :: "string list option"

datatype Payload = Text string | Json RequestBody

record RequestInit =
  req_method :: string
  req_headers :: "(string \<times> string) list"
  req_body :: "Payload option"
  req_timeout :: nat

record Response =
  ok :: bool
  http_status :: nat
  statusText :: string
  body_text :: "string promise"

text \<open>Every call that leaves the service, with its arguments, in the order issued.\<close>

datatype call =
    GetTaskById string
  | UpdateTask string TaskPatch
  | DeleteTask string
  | CreateExecutionLog ExecutionLog
  | Fetch string RequestInit

text \<open>
  How the storage layer behaves at one call: it does the work, it reports a failure in
  its result, or it throws.
\<close>

datatype health = Healthy | Failing string | Throwing string

text \<open>
  The \<open>env\<close> argument that every function of the source takes, together with the ambient
  runtime the source reaches through globals: the stored rows, the console, the journal
  of the calls issued so far, the clock (\<open>clock n\<close> is the value of the \<open>n\<close>-th reading),
  the transport behind \<^verbatim>\<open>fetch\<close>, and the behaviour of the \<open>n\<close>-th storage call.
\<close>

record Environment =
  tasks :: "string \<rightharpoonup> Task"
  execution_logs :: "ExecutionLog list"
  console :: "string list"
  journal :: "call list"
  storage :: "nat \<Rightarrow> health"
  storage_calls :: nat
  transport :: "string \<Rightarrow> RequestInit \<Rightarrow> Response promise"
  clock :: "nat \<Rightarrow> int"
  clock_reads :: nat

section \<open>Collaborators\<close>

text \<open>
  \<^verbatim>\<open>Date.now()\<close> and \<^verbatim>\<open>new Date()\<close> take the next reading of the clock; \<^verbatim>\<open>fetch\<close> asks the
  transport and enters the request in the journal; \<^verbatim>\<open>console.error\<close> appends a line to the
  console.
\<close>

definition Date_now :: "Environment \<Rightarrow> int \<times> Environment" where
  "Date_now env = (clock env (clock_reads env), env\<lparr>clock_reads := Suc (clock_reads env)\<rparr>)"

definition fetch :: "Environment \<Rightarrow> string \<Rightarrow> RequestInit \<Rightarrow> Response promise \<times> Environment" where
  "fetch env u init = (transport env u init, env\<lparr>journal := journal env @ [Fetch u init]\<rparr>)"

definition console_error :: "Environment \<Rightarrow> string \<Rightarrow> Environment" where
  "console_error env line = env\<lparr>console := console env @ [line]\<rparr>"

text \<open>One call of the storage layer: its behaviour is read off, the call is counted and journalled.\<close>

definition storage_turn :: "Environment \<Rightarrow> call \<Rightarrow> health \<times> Environment" where
  "storage_turn env c =
     (storage env (storage_calls env),
      env\<lparr>storage_calls := Suc (storage_calls env), journal := journal env @ [c]\<rparr>)"

definition succeeded :: "'a option \<Rightarrow> 'a Result" where
  "succeeded d = \<lparr>r_success = True, r_data = d, r_error = None\<rparr>"

definition failed :: "string \<Rightarrow> 'a Result" where
  "failed e = \<lparr>r_success = False, r_data = None, r_error = Some e\<rparr>"

definition apply_patch :: "TaskPatch \<Rightarrow> Task \<Rightarrow> Task" where
  "apply_patch p t =
     t\<lparr>name := (case set_name p of None \<Rightarrow> name t | Some v \<Rightarrow> v),
       schedule := (case set_schedule p of None \<Rightarrow> schedule t | Some v \<Rightarrow> v),
       config := (case set_config p of None \<Rightarrow> config t | Some v \<Rightarrow> v),
       enabled := (case set_enabled p of None \<Rightarrow> enabled t | Some v \<Rightarrow> v),
       last_executed := (case set_last_executed p of None \<Rightarrow> last_executed t | Some v \<Rightarrow> Some v),
       last_status := (case set_last_status p of None \<Rightarrow> last_status t | Some v \<Rightarrow> Some v)\<rparr>"

definition row_missing :: string where
  "row_missing = ''no such row''"

text \<open>
  \<^verbatim>\<open>DatabaseUtils\<close> (\<^verbatim>\<open>server/utils/database\<close>) is not among the sources. The spec gives it
  as a storage collaborator with a narrow CRUD contract, every operation returning a
  uniform \<^verbatim>\<open>{success, data?, error?}\<close> result. The four operations used by the task
  service do their work on the stored rows when the call is \<open>Healthy\<close> and report through
  the result when it is \<open>Failing\<close>; \<open>Throwing\<close> is the behaviour that the \<^verbatim>\<open>try/catch\<close>
  blocks of the source provide for. Each call is entered in the journal.
\<close>


text \<open>
  Modelled from the spec: \<^verbatim>\<open>DatabaseUtils.updateTask(id, partialFields)\<close>, which sets the
  given fields of the stored task and returns the task as updated; it reports a failure
  when no task has the id.
\<close>

definition DatabaseUtils_updateTask ::
  "Environment \<Rightarrow> string \<Rightarrow> TaskPatch \<Rightarrow> Task Result promise \<times> Environment" where
  "DatabaseUtils_updateTask env taskId p =
     (case storage_turn env (UpdateTask taskId p) of
        (Healthy, e) \<Rightarrow>
          (case tasks e taskId of
             None \<Rightarrow> (Resolved (failed row_missing), e)
           | Some t \<Rightarrow>
               (Resolved (succeeded (Some (apply_patch p t))),
                e\<lparr>tasks := (tasks e)(taskId \<mapsto> apply_patch p t)\<rparr>))
      | (Failing m, e) \<Rightarrow> (Resolved (failed m), e)
      | (Throwing m, e) \<Rightarrow> (Rejected (Error m), e))"


text \<open>
  Modelled from the spec: \<^verbatim>\<open>DatabaseUtils.createExecutionLog(log)\<close>, which appends the log
  to the stored logs (newest first here).
\<close>

definition DatabaseUtils_createExecutionLog ::
  "Environment \<Rightarrow> ExecutionLog \<Rightarrow> ExecutionLog Result promise \<times> Environment" where
  "DatabaseUtils_createExecutionLog env log =
     (case storage_turn env (CreateExecutionLog log) of
        (Healthy, e) \<Rightarrow>
          (Resolved (succeeded (Some log)), e\<lparr>execution_logs := log # execution_logs e\<rparr>)
      | (Failing m, e) \<Rightarrow> (Resolved (failed m), e)
      | (Throwing m, e) \<Rightarrow> (Rejected (Error m), e))"

section \<open>Task management\<close>

definition unknown_error :: string where
  "unknown_error = ''unknown error''"

text \<open>\<^verbatim>\<open>error instanceof Error ? error.message : <unknown error>\<close>\<close>

definition message_of :: "thrown \<Rightarrow> string" where
  "message_of x = (case x of Error m \<Rightarrow> m | NonError \<Rightarrow> unknown_error)"











section \<open>Task execution\<close>

text \<open>Decimal rendering of a number inside a template string.\<close>

fun string_of_nat :: "nat \<Rightarrow> string" where
  "string_of_nat n =
     (if n < 10 then [char_of (48 + n)]
      else string_of_nat (n div 10) @ [char_of (48 + n mod 10)])"

text \<open>JavaScript truthiness of an optional string: present and not empty.\<close>

definition truthy :: "string option \<Rightarrow> bool" where
  "truthy s = (case s of None \<Rightarrow> False | Some v \<Rightarrow> v \<noteq> [])"

definition log_write_failed :: string where
  "log_write_failed = ''recording the execution log failed: ''"

definition not_keepalive :: string where
  "not_keepalive = ''task type is not a keepalive task''"

definition not_notification :: string where
  "not_notification = ''task type is not a notification task''"

definition notify_failed :: string where
  "notify_failed = ''sending the notification failed: HTTP ''"

definition scheduled_notice :: string where
  "scheduled_notice = ''scheduled notification''"

definition notifyx_endpoint :: string where
  "notifyx_endpoint = ''https://api.notifyx.cn/v1/send''"

text \<open>
  What the runtime throws when a task's configuration has the other shape than its type
  says: \<^verbatim>\<open>fetch(undefined, ...)\<close> rejects with a \<^verbatim>\<open>TypeError\<close> for the URL, and reading
  \<^verbatim>\<open>notifyxConfig.apiKey\<close> of an absent \<^verbatim>\<open>notifyxConfig\<close> throws a \<^verbatim>\<open>TypeError\<close>.
\<close>

definition invalid_url :: string where
  "invalid_url = ''Invalid URL''"

definition undefined_property :: string where
  "undefined_property = ''Cannot read properties of undefined''"

text \<open>
  Modelled from the spec: \<^verbatim>\<open>ExecutionLogModel.create\<close> (\<^verbatim>\<open>server/models/execution-log.model\<close>)
  is not among the sources. The spec has one log of type \<open>execution\<close> written per run,
  carrying the task id, the execution time and the full result; the model copies the
  fields it is given and stamps the log with the current time.
\<close>

definition ExecutionLogModel_create ::
  "Environment \<Rightarrow> string \<Rightarrow> Status \<Rightarrow> int \<Rightarrow> nat option \<Rightarrow> string option \<Rightarrow> ExecutionResult
     \<Rightarrow> ExecutionLog \<times> Environment" where
  "ExecutionLogModel_create env taskId st rt sc em d =
     (let (now, e) = Date_now env in
      (\<lparr>task_id = Some taskId, log_type = Execution, execution_time = now, status = st,
        response_time = Some rt, status_code = sc, error_message = em, details = Some d\<rparr>, e))"

text \<open>
  \<^verbatim>\<open>logExecution\<close> (lines 413--433): build the log and hand it to the storage layer; whatever
  is thrown on the way is caught and written to the console.
\<close>

definition logExecution :: "Environment \<Rightarrow> string \<Rightarrow> ExecutionResult \<Rightarrow> unit promise \<times> Environment" where
  "logExecution env taskId result =
     (let (log, e1) =
            ExecutionLogModel_create env taskId (if success result then Success else Failure)
              (responseTime result) (statusCode result) (error result) result
      in case DatabaseUtils_createExecutionLog e1 log of
           (Resolved _, e2) \<Rightarrow> (Resolved (), e2)
         | (Rejected x, e2) \<Rightarrow> (Resolved (), console_error e2 (log_write_failed @ message_of x)))"

text \<open>The update \<^verbatim>\<open>{ last_executed: <now>, last_status: <st> }\<close>.\<close>

definition stamp :: "int \<Rightarrow> Status \<Rightarrow> TaskPatch" where
  "stamp now st = no_patch\<lparr>set_last_executed := Some now, set_last_status := Some st\<rparr>"

text \<open>
  The two statements that close every branch of both executors (lines 286--293, 305--312,
  375--382 and 394--401): the log write, then the update of the task's last execution
  state, then the result is returned. \<open>st\<close> is the status the branch passes:
  \<^verbatim>\<open>executionResult.success ? 'success' : 'failure'\<close> in the \<^verbatim>\<open>try\<close> blocks, the literal
  \<^verbatim>\<open>'failure'\<close> in the \<^verbatim>\<open>catch\<close> blocks.
\<close>

definition record_run ::
  "Environment \<Rightarrow> Task \<Rightarrow> ExecutionResult \<Rightarrow> Status \<Rightarrow> ExecutionResult promise \<times> Environment" where
  "record_run env task executionResult st =
     (case logExecution env (ident task) executionResult of
        (Rejected x, e1) \<Rightarrow> (Rejected x, e1)
      | (Resolved _, e1) \<Rightarrow>
          (let (now, e2) = Date_now e1 in
           case DatabaseUtils_updateTask e2 (ident task) (stamp now st) of
             (Rejected x, e3) \<Rightarrow> (Rejected x, e3)
           | (Resolved _, e3) \<Rightarrow> (Resolved executionResult, e3)))"

text \<open>The \<^verbatim>\<open>catch\<close> block, the same text in both executors (lines 296--315 and 385--404).\<close>

definition catch_block ::
  "Environment \<Rightarrow> Task \<Rightarrow> int \<Rightarrow> thrown \<Rightarrow> ExecutionResult promise \<times> Environment" where
  "catch_block env task startTime x =
     (let (t1, e1) = Date_now env;
          (ts, e2) = Date_now e1;
          executionResult =
            \<lparr>success = False, responseTime = t1 - startTime, statusCode = None,
             error = Some (message_of x), timestamp = ts\<rparr>
      in record_run e2 task executionResult Failure)"

text \<open>
  \<^verbatim>\<open>AbortSignal.timeout(ms)\<close> takes its delay as an integer of the range \<open>0 .. 2^53 - 1\<close> and
  throws for a delay outside it; the signal is the delay in milliseconds. A configured
  timeout is an integer here (the source's number could also be a fraction or not a
  number at all).
\<close>

definition delay_out_of_range :: string where
  "delay_out_of_range = ''The timeout delay is out of range''"

definition AbortSignal_timeout :: "int \<Rightarrow> thrown + nat" where
  "AbortSignal_timeout ms =
     (if ms < 0 \<or> 9007199254740991 < ms then Inl (Error delay_out_of_range) else Inr (nat ms))"

text \<open>
  The request options that \<^verbatim>\<open>executeKeepaliveTask\<close> builds from the configuration (lines
  258--267): the signal is made first, from \<^verbatim>\<open>config.timeout || 30000\<close>, and what it throws
  ends the \<^verbatim>\<open>try\<close> block before any request is sent.
\<close>

definition requestOptions :: "KeepaliveConfig \<Rightarrow> thrown + RequestInit" where
  "requestOptions cfg =
     (case AbortSignal_timeout
             (case timeout cfg of None \<Rightarrow> 30000 | Some ms \<Rightarrow> if ms = 0 then 30000 else ms) of
        Inl x \<Rightarrow> Inl x
      | Inr signal \<Rightarrow>
          Inr \<lparr>req_method = http_method cfg,
               req_headers = (case headers cfg of None \<Rightarrow> [] | Some h \<Rightarrow> h),
               req_body =
                 (if truthy (body cfg) \<and> (http_method cfg = ''POST'' \<or> http_method cfg = ''PUT'')
                  then map_option Text (body cfg) else None),
               req_timeout = signal\<rparr>)"

text \<open>The \<^verbatim>\<open>try\<close> block of \<^verbatim>\<open>executeKeepaliveTask\<close> (lines 249--295).\<close>

definition keepalive_try ::
  "Environment \<Rightarrow> Task \<Rightarrow> int \<Rightarrow> ExecutionResult promise \<times> Environment" where
  "keepalive_try env task startTime =
     (if task_type task \<noteq> Keepalive then (Rejected (Error not_keepalive), env)
      else
        (case config task of
           NotificationCfg _ \<Rightarrow> (Rejected (Error invalid_url), env)
         | KeepaliveCfg cfg \<Rightarrow>
             (case requestOptions cfg of
                Inl x \<Rightarrow> (Rejected x, env)
              | Inr init \<Rightarrow>
                  (case fetch env (url cfg) init of
                     (Rejected x, e1) \<Rightarrow> (Rejected x, e1)
                   | (Resolved response, e1) \<Rightarrow>
                       (let (t1, e2) = Date_now e1;
                            (ts, e3) = Date_now e2;
                            executionResult =
                              \<lparr>success = ok response, responseTime = t1 - startTime,
                               statusCode = Some (http_status response),
                               error =
                                 (if \<not> ok response
                                  then Some (''HTTP '' @ string_of_nat (http_status response) @ '': ''
                                               @ statusText response)
                                  else None),
                               timestamp = ts\<rparr>
                        in record_run e3 task executionResult
                             (if success executionResult then Success else Failure))))))"

definition executeKeepaliveTask :: "Environment \<Rightarrow> Task \<Rightarrow> ExecutionResult promise \<times> Environment" where
  "executeKeepaliveTask env task =
     (let (startTime, e0) = Date_now env in
      case keepalive_try e0 task startTime of
        (Resolved r, e) \<Rightarrow> (Resolved r, e)
      | (Rejected x, e) \<Rightarrow> catch_block e task startTime x)"

text \<open>\<^verbatim>\<open>a || d\<close> for an optional string \<open>a\<close>: \<open>a\<close> when it is present and not empty.\<close>

definition or_else :: "string option \<Rightarrow> string \<Rightarrow> string" where
  "or_else a d = (case a of None \<Rightarrow> d | Some v \<Rightarrow> if v = [] then d else v)"

text \<open>The request that \<^verbatim>\<open>executeNotificationTask\<close> sends to the NotifyX API (lines 341--357).\<close>

definition notifyx_request :: "NotificationConfig \<Rightarrow> RequestInit" where
  "notifyx_request cfg =
     (let notifyxConfig = notifyxConfig cfg in
      \<lparr>req_method = ''POST'',
       req_headers =
         [(''Content-Type'', ''application/json''),
          (''Authorization'', ''Bearer '' @ apiKey notifyxConfig)],
       req_body =
         Some (Json \<lparr>channel_id = channelId notifyxConfig,
                     p_title = or_else (title cfg) (or_else (nx_title notifyxConfig) scheduled_notice),
                     p_message = message cfg,
                     p_priority = or_else (priority cfg) ''normal'',
                     p_recipients = recipients notifyxConfig\<rparr>),
       req_timeout = 30000\<rparr>)"

text \<open>The \<^verbatim>\<open>try\<close> block of \<^verbatim>\<open>executeNotificationTask\<close> (lines 330--384).\<close>

definition notification_try ::
  "Environment \<Rightarrow> Task \<Rightarrow> int \<Rightarrow> ExecutionResult promise \<times> Environment" where
  "notification_try env task startTime =
     (if task_type task \<noteq> Notification then (Rejected (Error not_notification), env)
      else
        (case config task of
           KeepaliveCfg _ \<Rightarrow> (Rejected (Error undefined_property), env)
         | NotificationCfg cfg \<Rightarrow>
             (case fetch env notifyx_endpoint (notifyx_request cfg) of
                   (Rejected x, e1) \<Rightarrow> (Rejected x, e1)
                 | (Resolved response, e1) \<Rightarrow>
                     (let (t1, e2) = Date_now e1;
                          (ts, e3) = Date_now e2;
                          executionResult =
                            \<lparr>success = ok response, responseTime = t1 - startTime,
                             statusCode = Some (http_status response), error = None,
                             timestamp = ts\<rparr>
                      in if \<not> ok response
                         then
                           (case body_text response of
                              Rejected x \<Rightarrow> (Rejected x, e3)
                            | Resolved errorText \<Rightarrow>
                                record_run e3 task
                                  (executionResult
                                     \<lparr>error := Some (notify_failed @ string_of_nat (http_status response)
                                                      @ '' - '' @ errorText)\<rparr>)
                                  (if success executionResult then Success else Failure))
                         else
                           record_run e3 task executionResult
                             (if success executionResult then Success else Failure)))))"

definition executeNotificationTask :: "Environment \<Rightarrow> Task \<Rightarrow> ExecutionResult promise \<times> Environment" where
  "executeNotificationTask env task =
     (let (startTime, e0) = Date_now env in
      case notification_try e0 task startTime of
        (Resolved r, e) \<Rightarrow> (Resolved r, e)
      | (Rejected x, e) \<Rightarrow> catch_block e task startTime x)"

section \<open>Alert decisions\<close>

text \<open>
  \<^verbatim>\<open>NotificationService\<close> (\<^verbatim>\<open>server/services/notification.service\<close>) is not among the
  sources; only its property tests are (\<^verbatim>\<open>src/unnamed/part_000\<close>). The definitions of this
  section follow the spec's Notification Decision Engine: the per-user settings, the
  query for a task's recent execution logs, the failure-alert rule, the recovery-alert
  rule and the channel fan-out.
\<close>

text \<open>
  Modelled from the spec: the per-user notification settings, with an enabled flag and
  credentials per channel and the failure threshold.
\<close>

record NotificationSettings =
  email_enabled :: bool
  email_address :: "string option"
  email_api_key :: "string option"
  webhook_enabled :: bool
  webhook_url :: "string option"
  notifyx_enabled :: bool
  notifyx_api_key :: "string option"
  failure_threshold :: nat

text \<open>Modelled from the spec: the three channels, and the result of an alert call.\<close>

datatype Channel = NotifyX | Webhook | Email

record AlertResult =
  alert_success :: bool
  attempts :: "Channel list"

text \<open>
  Modelled from the spec: the execution logs of a task ordered by execution time
  descending (rows of equal time keep their stored order).
\<close>

definition task_history :: "ExecutionLog list \<Rightarrow> string \<Rightarrow> ExecutionLog list" where
  "task_history rows taskId =
     sort_key (\<lambda>l. - execution_time l) (filter (\<lambda>l. task_id l = Some taskId) rows)"

text \<open>
  Modelled from the spec: \<^verbatim>\<open>getExecutionLogsByTaskId(id, limit)\<close>, the newest \<open>limit\<close> logs
  of a task.
\<close>

definition getExecutionLogsByTaskId :: "ExecutionLog list \<Rightarrow> string \<Rightarrow> nat \<Rightarrow> ExecutionLog list" where
  "getExecutionLogsByTaskId rows taskId limit = take limit (task_history rows taskId)"

text \<open>
  Modelled from the spec: the failure-alert rule. The most recent logs are scanned
  newest first; the scan stops at the first success or at the threshold count, and the
  alert fires iff the number of failures counted is at least the threshold.
\<close>

fun scan_failures :: "nat \<Rightarrow> ExecutionLog list \<Rightarrow> nat" where
  "scan_failures 0 ls = 0"
| "scan_failures (Suc k) [] = 0"
| "scan_failures (Suc k) (l # ls) =
     (if status l = Failure then Suc (scan_failures k ls) else 0)"

text \<open>
  Modelled from the spec: \<^verbatim>\<open>shouldAlertOnFailure(taskId, threshold)\<close>, which fires iff the
  scan of the most recent logs counts at least \<open>threshold\<close> failures.
\<close>

definition shouldAlertOnFailure :: "ExecutionLog list \<Rightarrow> string \<Rightarrow> nat \<Rightarrow> bool" where
  "shouldAlertOnFailure rows taskId threshold =
     (threshold \<le> scan_failures threshold (getExecutionLogsByTaskId rows taskId threshold))"

text \<open>
  Modelled from the spec: the recovery-alert rule. The two most recent logs are fetched;
  the alert fires iff the newest is a success and the one before it a failure; with fewer
  than two logs it does not fire.
\<close>

definition shouldSendRecoveryAlert :: "ExecutionLog list \<Rightarrow> string \<Rightarrow> bool" where
  "shouldSendRecoveryAlert rows taskId =
     (case getExecutionLogsByTaskId rows taskId 2 of
        [newest, previous] \<Rightarrow> status newest = Success \<and> status previous = Failure
      | _ \<Rightarrow> False)"

text \<open>
  Modelled from the spec: the enabled channels of a user's settings, in the order of the
  fan-out (third-party push, webhook, email).
\<close>

definition enabled_channels :: "NotificationSettings \<Rightarrow> Channel list" where
  "enabled_channels s =
     (if notifyx_enabled s then [NotifyX] else [])
     @ (if webhook_enabled s then [Webhook] else [])
     @ (if email_enabled s then [Email] else [])"

text \<open>
  Modelled from the spec: \<^verbatim>\<open>sendFailureAlert\<close>. When the failure-alert rule fires, each
  enabled channel gets one delivery attempt, independently of the others; with no channel
  enabled the call succeeds without an attempt. The spec gives a default threshold for
  absent settings and does not say how the outcomes of several channels combine; both are
  parameters (\<open>default_threshold\<close>, \<open>overall\<close>), as is the outcome of a delivery
  (\<open>deliver\<close>). A call below the threshold is skipped as a success, as the property test
  of the failure alert expects.
\<close>

definition sendFailureAlert ::
  "nat \<Rightarrow> (bool list \<Rightarrow> bool) \<Rightarrow> (Channel \<Rightarrow> bool) \<Rightarrow> NotificationSettings option
     \<Rightarrow> ExecutionLog list \<Rightarrow> Task \<Rightarrow> AlertResult" where
  "sendFailureAlert default_threshold overall deliver settings rows task =
     (let threshold = (case settings of None \<Rightarrow> default_threshold | Some s \<Rightarrow> failure_threshold s);
          channels = (case settings of None \<Rightarrow> [] | Some s \<Rightarrow> enabled_channels s)
      in if \<not> shouldAlertOnFailure rows (ident task) threshold
         then \<lparr>alert_success = True, attempts = []\<rparr>
         else if channels = [] then \<lparr>alert_success = True, attempts = []\<rparr>
         else \<lparr>alert_success = overall (map deliver channels), attempts = channels\<rparr>)"

section \<open>Notions used in the statements\<close>

text \<open>
  The consecutive-failure count of a history: the number of failure logs met scanning
  newest first before the first success.
\<close>

definition consecutive_failures :: "ExecutionLog list \<Rightarrow> nat" where
  "consecutive_failures ls = length (takeWhile (\<lambda>l. status l = Failure) ls)"

text \<open>The log that \<open>logExecution\<close> builds for a result when called in \<open>env\<close>.\<close>

definition log_of :: "Environment \<Rightarrow> string \<Rightarrow> ExecutionResult \<Rightarrow> ExecutionLog" where
  "log_of env taskId result =
     \<lparr>task_id = Some taskId, log_type = Execution, execution_time = clock env (clock_reads env),
      status = (if success result then Success else Failure),
      response_time = Some (responseTime result), status_code = statusCode result,
      error_message = error result, details = Some result\<rparr>"

text \<open>The storage layer answers a call with an exception.\<close>

definition throws :: "health \<Rightarrow> bool" where
  "throws h = (case h of Throwing _ \<Rightarrow> True | _ \<Rightarrow> False)"

text \<open>The calls that a run started in \<open>env\<close> and ended in \<open>env'\<close> has issued.\<close>

definition issued :: "Environment \<Rightarrow> Environment \<Rightarrow> call list" where
  "issued env env' = drop (length (journal env)) (journal env')"

text \<open>
  Every task update in a list of calls comes directly after a log write for the same task.
\<close>

fun log_precedes_update :: "call list \<Rightarrow> bool" where
  "log_precedes_update [] = True"
| "log_precedes_update (UpdateTask i p # cs) = False"
| "log_precedes_update (CreateExecutionLog l # UpdateTask i p # cs) =
     (task_id l = Some i \<and> log_precedes_update cs)"
| "log_precedes_update (c # cs) = log_precedes_update cs"

text \<open>
  What a run has issued before its last log write: nothing, the request, or the request
  with a first log write and a first update of the same task.
\<close>

fun run_up :: "call list \<Rightarrow> string \<Rightarrow> bool" where
  "run_up [] i = True"
| "run_up [Fetch u r] i = True"
| "run_up [Fetch u r, CreateExecutionLog l, UpdateTask j p] i = (task_id l = Some i \<and> j = i)"
| "run_up pre i = False"

fun is_update :: "call \<Rightarrow> bool" where
  "is_update (UpdateTask i p) = True"
| "is_update c = False"

text \<open>
  What the executors establish in every run, stated on the outcome \<open>out\<close> of a run started
  in \<open>env\<close>: the last call issued is the update of the task's last execution state
  (\<open>updated_last\<close>); with a healthy storage layer the stored task carries that state
  (\<open>stored_last\<close>); a returned result has been written to the log before that update
  (\<open>recorded\<close>); and every update comes directly after a log write (\<open>ordered\<close>).
\<close>

definition updated_last :: "Environment \<Rightarrow> Task \<Rightarrow> ExecutionResult promise \<times> Environment \<Rightarrow> bool" where
  "updated_last env task out =
     (issued env (snd out) \<noteq> [] \<and>
      last (issued env (snd out)) =
        UpdateTask (ident task)
          (stamp (clock env (clock_reads (snd out) - 1))
             (case fst out of
                Resolved r \<Rightarrow> if success r then Success else Failure
              | Rejected x \<Rightarrow> Failure)))"

definition stored_last :: "Environment \<Rightarrow> Task \<Rightarrow> Task \<Rightarrow> ExecutionResult promise \<times> Environment \<Rightarrow> bool" where
  "stored_last env task t out =
     (\<exists>r. fst out = Resolved r \<and>
        tasks (snd out) (ident task) =
          Some (t\<lparr>last_executed := Some (clock env (clock_reads (snd out) - 1)),
                 last_status := Some (if success r then Success else Failure)\<rparr>))"

definition recorded :: "Environment \<Rightarrow> Task \<Rightarrow> ExecutionResult promise \<times> Environment \<Rightarrow> bool" where
  "recorded env task out =
     (\<forall>r. fst out = Resolved r \<longrightarrow>
        (\<exists>pre log now.
           issued env (snd out) =
             pre @ [CreateExecutionLog log,
                    UpdateTask (ident task) (stamp now (if success r then Success else Failure))]
           \<and> task_id log = Some (ident task)
           \<and> status log = (if success r then Success else Failure)
           \<and> error_message log = error r \<and> details log = Some r))"

definition ordered :: "Environment \<Rightarrow> ExecutionResult promise \<times> Environment \<Rightarrow> bool" where
  "ordered env out =
     (log_precedes_update (issued env (snd out)) \<and> list_ex is_update (issued env (snd out)))"

section \<open>Sample data\<close>

definition sample_config :: KeepaliveConfig where
  "sample_config =
     \<lparr>url = ''https://example.com/health'', http_method = ''GET'', headers = None, body = None,
      timeout = Some 30000\<rparr>"

definition sample_task :: Task where
  "sample_task =
     \<lparr>ident = ''task-1'', name = ''ping'', task_type = Keepalive, schedule = ''*/5 * * * *'',
      config = KeepaliveCfg sample_config, enabled = True, created_by = ''alice'',
      last_executed = None, last_status = None\<rparr>"

definition sample_env :: "(nat \<Rightarrow> health) \<Rightarrow> Response promise \<Rightarrow> Environment" where
  "sample_env h reply =
     \<lparr>tasks = [''task-1'' \<mapsto> sample_task], execution_logs = [], console = [], journal = [],
      storage = h, storage_calls = 0, transport = (\<lambda>u init. reply),
      clock = (\<lambda>n. 1000 + 10 * int n), clock_reads = 0\<rparr>"

definition all_healthy :: "nat \<Rightarrow> health" where
  "all_healthy n = Healthy"

definition sample_notification :: NotificationConfig where
  "sample_notification =
     \<lparr>message = ''backup finished'', title = Some ''Backup'', priority = None,
      notifyxConfig = \<lparr>apiKey = ''key-123'', channelId = Some ''ops'', nx_title = None,
                        recipients = None\<rparr>\<rparr>"

definition sample_notice :: Task where
  "sample_notice =
     \<lparr>ident = ''task-2'', name = ''notice'', task_type = Notification, schedule = ''0 8 * * *'',
      config = NotificationCfg sample_notification, enabled = True, created_by = ''alice'',
      last_executed = None, last_status = None\<rparr>"

definition sample_response :: "nat \<Rightarrow> string \<Rightarrow> Response" where
  "sample_response code reason =
     \<lparr>ok = (200 \<le> code \<and> code \<le> 299), http_status = code, statusText = reason,
      body_text = Resolved ''''\<rparr>"

definition update_throws :: "nat \<Rightarrow> health" where
  "update_throws n = (if n = 1 then Throwing ''db down'' else Healthy)"

definition stored_env :: "Task \<Rightarrow> (nat \<Rightarrow> health) \<Rightarrow> Response promise \<Rightarrow> Environment" where
  "stored_env t h reply = (sample_env h reply)\<lparr>tasks := [ident t \<mapsto> t]\<rparr>"

definition log_write_fails :: "nat \<Rightarrow> health" where
  "log_write_fails n = (if n = 0 then Failing ''disk full'' else Healthy)"

definition log_write_throws :: "nat \<Rightarrow> health" where
  "log_write_throws n = (if n = 0 then Throwing ''disk full'' else Healthy)"

definition sample_failure :: ExecutionResult where
  "sample_failure =
     \<lparr>success = False, responseTime = 10, statusCode = None, error = Some ''X'',
      timestamp = 1020\<rparr>"

definition sample_log :: "string \<Rightarrow> int \<Rightarrow> Status \<Rightarrow> ExecutionLog" where
  "sample_log i t s =
     \<lparr>task_id = Some i, log_type = Execution, execution_time = t, status = s,
      response_time = None, status_code = None, error_message = None, details = None\<rparr>"

definition three_failures :: "ExecutionLog list" where
  "three_failures =
     [sample_log ''task-1'' 10 Failure, sample_log ''task-2'' 15 Success,
      sample_log ''task-1'' 30 Failure, sample_log ''task-1'' 20 Failure]"

definition interrupted :: "ExecutionLog list" where
  "interrupted =
     [sample_log ''task-1'' 10 Failure, sample_log ''task-1'' 20 Success,
      sample_log ''task-1'' 30 Failure]"

definition recovered :: "ExecutionLog list" where
  "recovered =
     [sample_log ''task-1'' 30 Success, sample_log ''task-1'' 10 Failure,
      sample_log ''task-1'' 20 Failure]"

definition steady :: "ExecutionLog list" where
  "steady = [sample_log ''task-1'' 10 Success, sample_log ''task-1'' 20 Success]"

definition first_run :: "ExecutionLog list" where
  "first_run = [sample_log ''task-1'' 10 Success, sample_log ''task-2'' 5 Failure]"

definition sample_settings :: "bool \<Rightarrow> NotificationSettings" where
  "sample_settings push =
     \<lparr>email_enabled = False, email_address = None, email_api_key = None,
      webhook_enabled = False, webhook_url = None,
      notifyx_enabled = push, notifyx_api_key = (if push then Some ''key-123'' else None),
      failure_threshold = 3\<rparr>"

section \<open>Facts about the collaborators and the closing steps\<close>


lemma logExecution_eq:
  "logExecution env tid res =
     (Resolved (),
      env\<lparr>clock_reads := Suc (clock_reads env),
          storage_calls := Suc (storage_calls env),
          journal := journal env @ [CreateExecutionLog (log_of env tid res)],
          execution_logs :=
            (case storage env (storage_calls env) of
               Healthy \<Rightarrow> log_of env tid res # execution_logs env
             | _ \<Rightarrow> execution_logs env),
          console :=
            (case storage env (storage_calls env) of
               Throwing m \<Rightarrow> console env @ [log_write_failed @ m]
             | _ \<Rightarrow> console env)\<rparr>)"
  by (cases "storage env (storage_calls env)")
     (simp_all add: logExecution_def ExecutionLogModel_create_def Date_now_def
        DatabaseUtils_createExecutionLog_def storage_turn_def log_of_def console_error_def
        message_of_def)

lemma record_run_eq:
  "record_run env task res st =
     ((case storage env (Suc (storage_calls env)) of
         Throwing m \<Rightarrow> Rejected (Error m)
       | _ \<Rightarrow> Resolved res),
      env\<lparr>clock_reads := Suc (Suc (clock_reads env)),
          storage_calls := Suc (Suc (storage_calls env)),
          journal := journal env @
            [CreateExecutionLog (log_of env (ident task) res),
             UpdateTask (ident task) (stamp (clock env (Suc (clock_reads env))) st)],
          execution_logs :=
            (case storage env (storage_calls env) of
               Healthy \<Rightarrow> log_of env (ident task) res # execution_logs env
             | _ \<Rightarrow> execution_logs env),
          console :=
            (case storage env (storage_calls env) of
               Throwing m \<Rightarrow> console env @ [log_write_failed @ m]
             | _ \<Rightarrow> console env),
          tasks :=
            (case (storage env (Suc (storage_calls env)), tasks env (ident task)) of
               (Healthy, Some t) \<Rightarrow>
                 (tasks env)(ident task \<mapsto> apply_patch (stamp (clock env (Suc (clock_reads env))) st) t)
             | _ \<Rightarrow> tasks env)\<rparr>)"
  by (cases "storage env (Suc (storage_calls env))"; cases "tasks env (ident task)")
     (simp_all add: record_run_def logExecution_eq Date_now_def DatabaseUtils_updateTask_def
        storage_turn_def)

lemma catch_block_eq:
  "catch_block env task start x =
     record_run (env\<lparr>clock_reads := Suc (Suc (clock_reads env))\<rparr>) task
       \<lparr>success = False, responseTime = clock env (clock_reads env) - start, statusCode = None,
        error = Some (message_of x), timestamp = clock env (Suc (clock_reads env))\<rparr> Failure"
  by (simp add: catch_block_def Date_now_def)

lemma keepalive_wrong_type:
  "task_type task \<noteq> Keepalive \<Longrightarrow>
   executeKeepaliveTask env task =
     record_run (env\<lparr>clock_reads := Suc (Suc (Suc (clock_reads env)))\<rparr>) task
       \<lparr>success = False,
        responseTime = clock env (Suc (clock_reads env)) - clock env (clock_reads env),
        statusCode = None, error = Some not_keepalive,
        timestamp = clock env (Suc (Suc (clock_reads env)))\<rparr> Failure"
  by (simp add: executeKeepaliveTask_def keepalive_try_def Date_now_def catch_block_eq message_of_def)

lemma notification_wrong_type:
  "task_type task \<noteq> Notification \<Longrightarrow>
   executeNotificationTask env task =
     record_run (env\<lparr>clock_reads := Suc (Suc (Suc (clock_reads env)))\<rparr>) task
       \<lparr>success = False,
        responseTime = clock env (Suc (clock_reads env)) - clock env (clock_reads env),
        statusCode = None, error = Some not_notification,
        timestamp = clock env (Suc (Suc (clock_reads env)))\<rparr> Failure"
  by (simp add: executeNotificationTask_def notification_try_def Date_now_def catch_block_eq message_of_def)



lemma keepalive_try_eq:
  "keepalive_try e task start =
     (if task_type task \<noteq> Keepalive then (Rejected (Error not_keepalive), e)
      else case config task of
        NotificationCfg c \<Rightarrow> (Rejected (Error invalid_url), e)
      | KeepaliveCfg cfg \<Rightarrow>
          (case requestOptions cfg of
             Inl x \<Rightarrow> (Rejected x, e)
           | Inr init \<Rightarrow>
               (case transport e (url cfg) init of
                  Rejected x \<Rightarrow> (Rejected x, e\<lparr>journal := journal e @ [Fetch (url cfg) init]\<rparr>)
                | Resolved response \<Rightarrow>
                    record_run
                      (e\<lparr>journal := journal e @ [Fetch (url cfg) init],
                         clock_reads := Suc (Suc (clock_reads e))\<rparr>) task
                      \<lparr>success = ok response, responseTime = clock e (clock_reads e) - start,
                       statusCode = Some (http_status response),
                       error = (if \<not> ok response
                                then Some (''HTTP '' @ string_of_nat (http_status response) @ '': ''
                                             @ statusText response)
                                else None),
                       timestamp = clock e (Suc (clock_reads e))\<rparr>
                      (if ok response then Success else Failure))))"
  by (simp add: keepalive_try_def fetch_def Date_now_def
      split: TaskConfig.splits promise.splits sum.splits)

lemma keepalive_wrong_shape:
  "task_type task = Keepalive \<Longrightarrow> config task = NotificationCfg c \<Longrightarrow>
   executeKeepaliveTask env task =
     record_run (env\<lparr>clock_reads := Suc (Suc (Suc (clock_reads env)))\<rparr>) task
       \<lparr>success = False,
        responseTime = clock env (Suc (clock_reads env)) - clock env (clock_reads env),
        statusCode = None, error = Some invalid_url,
        timestamp = clock env (Suc (Suc (clock_reads env)))\<rparr> Failure"
  by (simp add: executeKeepaliveTask_def keepalive_try_eq Date_now_def catch_block_eq message_of_def)

lemma keepalive_bad_delay:
  "task_type task = Keepalive \<Longrightarrow> config task = KeepaliveCfg cfg \<Longrightarrow>
   requestOptions cfg = Inl x \<Longrightarrow>
   executeKeepaliveTask env task =
     record_run (env\<lparr>clock_reads := Suc (Suc (Suc (clock_reads env)))\<rparr>) task
       \<lparr>success = False,
        responseTime = clock env (Suc (clock_reads env)) - clock env (clock_reads env),
        statusCode = None, error = Some (message_of x),
        timestamp = clock env (Suc (Suc (clock_reads env)))\<rparr> Failure"
  by (simp add: executeKeepaliveTask_def keepalive_try_eq Date_now_def catch_block_eq)

lemma keepalive_rejected:
  "task_type task = Keepalive \<Longrightarrow> config task = KeepaliveCfg cfg \<Longrightarrow>
   requestOptions cfg = Inr init \<Longrightarrow>
   transport env (url cfg) init = Rejected x \<Longrightarrow>
   executeKeepaliveTask env task =
     record_run
       (env\<lparr>journal := journal env @ [Fetch (url cfg) init],
            clock_reads := Suc (Suc (Suc (clock_reads env)))\<rparr>) task
       \<lparr>success = False,
        responseTime = clock env (Suc (clock_reads env)) - clock env (clock_reads env),
        statusCode = None, error = Some (message_of x),
        timestamp = clock env (Suc (Suc (clock_reads env)))\<rparr> Failure"
  by (simp add: executeKeepaliveTask_def keepalive_try_eq Date_now_def catch_block_eq)

lemma keepalive_responded:
  "task_type task = Keepalive \<Longrightarrow> config task = KeepaliveCfg cfg \<Longrightarrow>
   requestOptions cfg = Inr init \<Longrightarrow>
   transport env (url cfg) init = Resolved response \<Longrightarrow>
   \<not> throws (storage env (Suc (storage_calls env))) \<Longrightarrow>
   executeKeepaliveTask env task =
     record_run
       (env\<lparr>journal := journal env @ [Fetch (url cfg) init],
            clock_reads := Suc (Suc (Suc (clock_reads env)))\<rparr>) task
       \<lparr>success = ok response,
        responseTime = clock env (Suc (clock_reads env)) - clock env (clock_reads env),
        statusCode = Some (http_status response),
        error = (if \<not> ok response
                 then Some (''HTTP '' @ string_of_nat (http_status response) @ '': ''
                              @ statusText response)
                 else None),
        timestamp = clock env (Suc (Suc (clock_reads env)))\<rparr>
       (if ok response then Success else Failure)"
  by (cases "storage env (Suc (storage_calls env))")
     (simp_all add: executeKeepaliveTask_def keepalive_try_eq Date_now_def record_run_eq throws_def)

lemma keepalive_retried:
  "task_type task = Keepalive \<Longrightarrow> config task = KeepaliveCfg cfg \<Longrightarrow>
   requestOptions cfg = Inr init \<Longrightarrow>
   transport env (url cfg) init = Resolved response \<Longrightarrow>
   storage env (Suc (storage_calls env)) = Throwing m \<Longrightarrow>
   executeKeepaliveTask env task =
     catch_block
       (snd (record_run
       (env\<lparr>journal := journal env @ [Fetch (url cfg) init],
            clock_reads := Suc (Suc (Suc (clock_reads env)))\<rparr>) task
       \<lparr>success = ok response,
        responseTime = clock env (Suc (clock_reads env)) - clock env (clock_reads env),
        statusCode = Some (http_status response),
        error = (if \<not> ok response
                 then Some (''HTTP '' @ string_of_nat (http_status response) @ '': ''
                              @ statusText response)
                 else None),
        timestamp = clock env (Suc (Suc (clock_reads env)))\<rparr>
       (if ok response then Success else Failure)))
       task (clock env (clock_reads env)) (Error m)"
  by (simp add: executeKeepaliveTask_def keepalive_try_eq Date_now_def record_run_eq)

lemma keepalive_retried_fst:
  "task_type task = Keepalive \<Longrightarrow> config task = KeepaliveCfg cfg \<Longrightarrow>
   requestOptions cfg = Inr init \<Longrightarrow>
   transport env (url cfg) init = Resolved response \<Longrightarrow>
   storage env (Suc (storage_calls env)) = Throwing m \<Longrightarrow>
   fst (executeKeepaliveTask env task) =
     (case storage env (Suc (Suc (Suc (storage_calls env)))) of
        Throwing m' \<Rightarrow> Rejected (Error m')
      | _ \<Rightarrow>
          Resolved
            \<lparr>success = False,
             responseTime = clock env (Suc (Suc (Suc (Suc (Suc (clock_reads env))))))
                            - clock env (clock_reads env),
             statusCode = None, error = Some m,
             timestamp = clock env (Suc (Suc (Suc (Suc (Suc (Suc (clock_reads env)))))))\<rparr>)"
  by (simp add: keepalive_retried catch_block_eq record_run_eq message_of_def)

lemma task_id_log_of: "task_id (log_of e i r) = Some i"
  by (simp add: log_of_def)

lemma keepalive_run_shape:
  assumes step: "\<And>e res pre.
      run_up pre (ident task) \<Longrightarrow> journal e = journal env @ pre \<Longrightarrow>
      clock e = clock env \<Longrightarrow> storage e = storage env \<Longrightarrow>
      (\<not> throws (storage env (Suc (storage_calls env))) \<longrightarrow>
         storage_calls e = storage_calls env \<and> tasks e = tasks env
         \<and> execution_logs e = execution_logs env \<and> console e = console env) \<Longrightarrow>
      (success res \<longrightarrow> \<not> throws (storage env (Suc (storage_calls env)))) \<Longrightarrow>
      P (record_run e task res (if success res then Success else Failure))"
  shows "P (executeKeepaliveTask env task)"
proof (cases "task_type task = Keepalive")
  case False
  show ?thesis
    unfolding keepalive_wrong_type[OF False]
    by (rule step[where pre = "[]" and res = "\<lparr>success = False, responseTime = _, statusCode = _, error = _, timestamp = _\<rparr>", simplified])
       (simp_all)
next
  case kt: True
  show ?thesis
  proof (cases "config task")
    case (NotificationCfg c)
    show ?thesis
      unfolding keepalive_wrong_shape[OF kt NotificationCfg]
      by (rule step[where pre = "[]" and res = "\<lparr>success = False, responseTime = _, statusCode = _, error = _, timestamp = _\<rparr>", simplified])
         (simp_all)
  next
    case (KeepaliveCfg cfg)
    show ?thesis
    proof (cases "requestOptions cfg")
      case (Inl x)
      show ?thesis
        unfolding keepalive_bad_delay[OF kt KeepaliveCfg Inl]
        by (rule step[where pre = "[]" and res = "\<lparr>success = False, responseTime = _, statusCode = _, error = _, timestamp = _\<rparr>", simplified])
           (simp_all)
    next
      case (Inr init)
      show ?thesis
      proof (cases "transport env (url cfg) init")
        case (Rejected x)
        show ?thesis
          unfolding keepalive_rejected[OF kt KeepaliveCfg Inr Rejected]
          by (rule step[where pre = "[Fetch (url cfg) init]"
                  and res = "\<lparr>success = False, responseTime = _, statusCode = _, error = _, timestamp = _\<rparr>", simplified])
             (simp_all)
      next
        case (Resolved response)
        show ?thesis
        proof (cases "throws (storage env (Suc (storage_calls env)))")
          case False
          show ?thesis
            unfolding keepalive_responded[OF kt KeepaliveCfg Inr Resolved False]
            by (rule step[where pre = "[Fetch (url cfg) init]"
                  and res = "\<lparr>success = ok response, responseTime = _, statusCode = _, error = _, timestamp = _\<rparr>", simplified])
               (simp_all add: False)
        next
          case True
          then obtain m where m: "storage env (Suc (storage_calls env)) = Throwing m"
            by (cases "storage env (Suc (storage_calls env))") (simp_all add: throws_def)
          show ?thesis
            unfolding keepalive_retried[OF kt KeepaliveCfg Inr Resolved m] catch_block_eq
            by (rule step[where
                  pre = "[Fetch (url cfg) init, CreateExecutionLog _, UpdateTask (ident task) _]"
                  and res = "\<lparr>success = False, responseTime = _, statusCode = _, error = _, timestamp = _\<rparr>", simplified])
               (simp_all add: record_run_eq task_id_log_of True)
        qed
      qed
    qed
  qed
qed

lemma notification_try_eq:
  "notification_try e task start =
     (if task_type task \<noteq> Notification then (Rejected (Error not_notification), e)
      else case config task of
        KeepaliveCfg c \<Rightarrow> (Rejected (Error undefined_property), e)
      | NotificationCfg cfg \<Rightarrow>
          (case transport e notifyx_endpoint (notifyx_request cfg) of
             Rejected x \<Rightarrow> (Rejected x, e\<lparr>journal := journal e @ [Fetch notifyx_endpoint (notifyx_request cfg)]\<rparr>)
           | Resolved response \<Rightarrow>
               (if ok response then
                  record_run
                    (e\<lparr>journal := journal e @ [Fetch notifyx_endpoint (notifyx_request cfg)],
                       clock_reads := Suc (Suc (clock_reads e))\<rparr>) task
                    \<lparr>success = True, responseTime = clock e (clock_reads e) - start,
                     statusCode = Some (http_status response), error = None,
                     timestamp = clock e (Suc (clock_reads e))\<rparr> Success
                else
                  (case body_text response of
                     Rejected x \<Rightarrow>
                       (Rejected x,
                        e\<lparr>journal := journal e @ [Fetch notifyx_endpoint (notifyx_request cfg)],
                          clock_reads := Suc (Suc (clock_reads e))\<rparr>)
                   | Resolved errorText \<Rightarrow>
                       record_run
                         (e\<lparr>journal := journal e @ [Fetch notifyx_endpoint (notifyx_request cfg)],
                            clock_reads := Suc (Suc (clock_reads e))\<rparr>) task
                         \<lparr>success = False, responseTime = clock e (clock_reads e) - start,
                          statusCode = Some (http_status response),
                          error = Some (notify_failed @ string_of_nat (http_status response)
                                          @ '' - '' @ errorText),
                          timestamp = clock e (Suc (clock_reads e))\<rparr> Failure))))"
  by (simp add: notification_try_def fetch_def Date_now_def notifyx_request_def
      split: TaskConfig.splits promise.splits)


lemma notification_wrong_shape:
  "task_type task = Notification \<Longrightarrow> config task = KeepaliveCfg c \<Longrightarrow>
   executeNotificationTask env task =
     record_run (env\<lparr>clock_reads := Suc (Suc (Suc (clock_reads env)))\<rparr>) task
       \<lparr>success = False,
        responseTime = clock env (Suc (clock_reads env)) - clock env (clock_reads env),
        statusCode = None, error = Some undefined_property,
        timestamp = clock env (Suc (Suc (clock_reads env)))\<rparr> Failure"
  by (simp add: executeNotificationTask_def notification_try_eq Date_now_def catch_block_eq
        message_of_def)

lemma notification_rejected:
  "task_type task = Notification \<Longrightarrow> config task = NotificationCfg cfg \<Longrightarrow>
   transport env notifyx_endpoint (notifyx_request cfg) = Rejected x \<Longrightarrow>
   executeNotificationTask env task =
     record_run
       (env\<lparr>journal := journal env @ [Fetch notifyx_endpoint (notifyx_request cfg)],
            clock_reads := Suc (Suc (Suc (clock_reads env)))\<rparr>) task
       \<lparr>success = False,
        responseTime = clock env (Suc (clock_reads env)) - clock env (clock_reads env),
        statusCode = None, error = Some (message_of x),
        timestamp = clock env (Suc (Suc (clock_reads env)))\<rparr> Failure"
  by (simp add: executeNotificationTask_def notification_try_eq Date_now_def catch_block_eq)

lemma notification_unreadable:
  "task_type task = Notification \<Longrightarrow> config task = NotificationCfg cfg \<Longrightarrow>
   transport env notifyx_endpoint (notifyx_request cfg) = Resolved response \<Longrightarrow>
   \<not> ok response \<Longrightarrow> body_text response = Rejected x \<Longrightarrow>
   executeNotificationTask env task =
     record_run
       (env\<lparr>journal := journal env @ [Fetch notifyx_endpoint (notifyx_request cfg)],
            clock_reads := Suc (Suc (Suc (Suc (Suc (clock_reads env)))))\<rparr>) task
       \<lparr>success = False,
        responseTime = clock env (Suc (Suc (Suc (clock_reads env)))) - clock env (clock_reads env),
        statusCode = None, error = Some (message_of x),
        timestamp = clock env (Suc (Suc (Suc (Suc (clock_reads env)))))\<rparr> Failure"
  by (simp add: executeNotificationTask_def notification_try_eq Date_now_def catch_block_eq)

lemma notification_responded:
  "task_type task = Notification \<Longrightarrow> config task = NotificationCfg cfg \<Longrightarrow>
   transport env notifyx_endpoint (notifyx_request cfg) = Resolved response \<Longrightarrow>
   ok response \<or> body_text response = Resolved errorText \<Longrightarrow>
   \<not> throws (storage env (Suc (storage_calls env))) \<Longrightarrow>
   executeNotificationTask env task =
     record_run
       (env\<lparr>journal := journal env @ [Fetch notifyx_endpoint (notifyx_request cfg)],
            clock_reads := Suc (Suc (Suc (clock_reads env)))\<rparr>) task
       \<lparr>success = ok response,
        responseTime = clock env (Suc (clock_reads env)) - clock env (clock_reads env),
        statusCode = Some (http_status response),
        error = (if ok response then None
                 else Some (notify_failed @ string_of_nat (http_status response)
                              @ '' - '' @ errorText)),
        timestamp = clock env (Suc (Suc (clock_reads env)))\<rparr>
       (if ok response then Success else Failure)"
proof -
  assume a: "task_type task = Notification" "config task = NotificationCfg cfg"
    "transport env notifyx_endpoint (notifyx_request cfg) = Resolved response"
    "\<not> throws (storage env (Suc (storage_calls env)))"
  assume d: "ok response \<or> body_text response = Resolved errorText"
  show ?thesis
  proof (cases "ok response")
    case True
    with a show ?thesis
      by (cases "storage env (Suc (storage_calls env))")
         (simp_all add: executeNotificationTask_def notification_try_eq Date_now_def
            record_run_eq throws_def)
  next
    case False
    with d have t: "body_text response = Resolved errorText" by simp
    from a False t show ?thesis
      by (cases "storage env (Suc (storage_calls env))")
         (simp_all add: executeNotificationTask_def notification_try_eq Date_now_def
            record_run_eq throws_def)
  qed
qed

lemma notification_retried:
  "task_type task = Notification \<Longrightarrow> config task = NotificationCfg cfg \<Longrightarrow>
   transport env notifyx_endpoint (notifyx_request cfg) = Resolved response \<Longrightarrow>
   ok response \<or> body_text response = Resolved errorText \<Longrightarrow>
   storage env (Suc (storage_calls env)) = Throwing m \<Longrightarrow>
   executeNotificationTask env task =
     catch_block
       (snd (record_run
               (env\<lparr>journal := journal env @ [Fetch notifyx_endpoint (notifyx_request cfg)],
                    clock_reads := Suc (Suc (Suc (clock_reads env)))\<rparr>) task
               \<lparr>success = ok response,
                responseTime = clock env (Suc (clock_reads env)) - clock env (clock_reads env),
                statusCode = Some (http_status response),
                error = (if ok response then None
                         else Some (notify_failed @ string_of_nat (http_status response)
                                      @ '' - '' @ errorText)),
                timestamp = clock env (Suc (Suc (clock_reads env)))\<rparr>
               (if ok response then Success else Failure)))
       task (clock env (clock_reads env)) (Error m)"
proof -
  assume a: "task_type task = Notification" "config task = NotificationCfg cfg"
    "transport env notifyx_endpoint (notifyx_request cfg) = Resolved response"
    "storage env (Suc (storage_calls env)) = Throwing m"
  assume d: "ok response \<or> body_text response = Resolved errorText"
  show ?thesis
  proof (cases "ok response")
    case True
    with a show ?thesis
      by (simp add: executeNotificationTask_def notification_try_eq Date_now_def record_run_eq)
  next
    case False
    with d have t: "body_text response = Resolved errorText" by simp
    from a False t show ?thesis
      by (simp add: executeNotificationTask_def notification_try_eq Date_now_def record_run_eq)
  qed
qed

lemma notification_run_shape:
  assumes step: "\<And>e res pre.
      run_up pre (ident task) \<Longrightarrow> journal e = journal env @ pre \<Longrightarrow>
      clock e = clock env \<Longrightarrow> storage e = storage env \<Longrightarrow>
      (\<not> throws (storage env (Suc (storage_calls env))) \<longrightarrow>
         storage_calls e = storage_calls env \<and> tasks e = tasks env
         \<and> execution_logs e = execution_logs env \<and> console e = console env) \<Longrightarrow>
      (success res \<longrightarrow> \<not> throws (storage env (Suc (storage_calls env)))) \<Longrightarrow>
      P (record_run e task res (if success res then Success else Failure))"
  shows "P (executeNotificationTask env task)"
proof (cases "task_type task = Notification")
  case False
  show ?thesis
    unfolding notification_wrong_type[OF False]
    by (rule step[where pre = "[]" and res = "\<lparr>success = False, responseTime = _, statusCode = _, error = _, timestamp = _\<rparr>", simplified])
       (simp_all)
next
  case nt: True
  show ?thesis
  proof (cases "config task")
    case (KeepaliveCfg c)
    show ?thesis
      unfolding notification_wrong_shape[OF nt KeepaliveCfg]
      by (rule step[where pre = "[]" and res = "\<lparr>success = False, responseTime = _, statusCode = _, error = _, timestamp = _\<rparr>", simplified])
         (simp_all)
  next
    case (NotificationCfg cfg)
    show ?thesis
    proof (cases "transport env notifyx_endpoint (notifyx_request cfg)")
      case (Rejected x)
      show ?thesis
        unfolding notification_rejected[OF nt NotificationCfg Rejected]
        by (rule step[where pre = "[Fetch notifyx_endpoint (notifyx_request cfg)]"
                and res = "\<lparr>success = False, responseTime = _, statusCode = _, error = _, timestamp = _\<rparr>", simplified])
           (simp_all)
    next
      case (Resolved response)
      show ?thesis
      proof (cases "\<not> ok response \<and> (\<exists>x. body_text response = Rejected x)")
        case True
        then obtain x where x: "\<not> ok response" "body_text response = Rejected x" by blast
        show ?thesis
          unfolding notification_unreadable[OF nt NotificationCfg Resolved x]
          by (rule step[where pre = "[Fetch notifyx_endpoint (notifyx_request cfg)]"
                and res = "\<lparr>success = False, responseTime = _, statusCode = _, error = _, timestamp = _\<rparr>", simplified])
             (simp_all)
      next
        case False
        then obtain errorText where readable: "ok response \<or> body_text response = Resolved errorText"
          by (cases "body_text response") auto
        show ?thesis
        proof (cases "throws (storage env (Suc (storage_calls env)))")
          case False
          show ?thesis
            unfolding notification_responded[OF nt NotificationCfg Resolved readable False]
            by (rule step[where pre = "[Fetch notifyx_endpoint (notifyx_request cfg)]"
                  and res = "\<lparr>success = ok response, responseTime = _, statusCode = _, error = _, timestamp = _\<rparr>", simplified])
               (simp_all add: False)
        next
          case True
          then obtain m where m: "storage env (Suc (storage_calls env)) = Throwing m"
            by (cases "storage env (Suc (storage_calls env))") (simp_all add: throws_def)
          show ?thesis
            unfolding notification_retried[OF nt NotificationCfg Resolved readable m] catch_block_eq
            by (rule step[where
                  pre = "[Fetch notifyx_endpoint (notifyx_request cfg), CreateExecutionLog _, UpdateTask (ident task) _]"
                  and res = "\<lparr>success = False, responseTime = _, statusCode = _, error = _, timestamp = _\<rparr>", simplified])
               (simp_all add: record_run_eq task_id_log_of True)
        qed
      qed
    qed
  qed
qed

lemma apply_stamp:
  "apply_patch (stamp now st) t = t\<lparr>last_executed := Some now, last_status := Some st\<rparr>"
  by (simp add: apply_patch_def stamp_def no_patch_def)

lemma run_up_then_recorded:
  "run_up pre i \<Longrightarrow> task_id l = Some i \<Longrightarrow>
   log_precedes_update (pre @ [CreateExecutionLog l, UpdateTask i p])"
  by (induction pre i rule: run_up.induct) simp_all

lemma record_run_issued:
  "journal e = journal env @ pre \<Longrightarrow>
   issued env (snd (record_run e task res st)) =
     pre @ [CreateExecutionLog (log_of e (ident task) res),
            UpdateTask (ident task) (stamp (clock e (Suc (clock_reads e))) st)]"
  by (simp add: record_run_eq issued_def)

lemma record_run_fst:
  "fst (record_run e task res st) =
     (case storage e (Suc (storage_calls e)) of
        Throwing m \<Rightarrow> Rejected (Error m) | _ \<Rightarrow> Resolved res)"
  by (simp add: record_run_eq)

lemma record_run_resolves:
  "\<not> throws (storage e (Suc (storage_calls e))) \<Longrightarrow> fst (record_run e task res st) = Resolved res"
  by (simp add: record_run_fst throws_def split: health.splits)

lemma record_run_clock_reads:
  "clock_reads (snd (record_run e task res st)) = Suc (Suc (clock_reads e))"
  by (simp add: record_run_eq)

lemma record_run_tasks:
  "storage e (Suc (storage_calls e)) = Healthy \<Longrightarrow> tasks e (ident task) = Some t \<Longrightarrow>
   tasks (snd (record_run e task res st)) (ident task) =
     Some (t\<lparr>last_executed := Some (clock e (Suc (clock_reads e))), last_status := Some st\<rparr>)"
  by (simp add: record_run_eq apply_stamp)

lemma updated_last_step:
  fixes e :: Environment
  assumes "journal e = journal env @ pre" "clock e = clock env" "storage e = storage env"
    and "\<not> throws (storage env (Suc (storage_calls env))) \<longrightarrow>
         storage_calls e = storage_calls env \<and> tasks e = tasks env
         \<and> execution_logs e = execution_logs env \<and> console e = console env"
    and "success res \<longrightarrow> \<not> throws (storage env (Suc (storage_calls env)))"
  shows "updated_last env task (record_run e task res (if success res then Success else Failure))"
  using assms
  by (cases "storage e (Suc (storage_calls e))")
     (auto simp add: updated_last_def record_run_issued record_run_fst record_run_clock_reads
        throws_def)

lemma keepalive_updated_last: "updated_last env task (executeKeepaliveTask env task)"
  by (rule keepalive_run_shape) (rule updated_last_step)

lemma notification_updated_last: "updated_last env task (executeNotificationTask env task)"
  by (rule notification_run_shape) (rule updated_last_step)

lemma stored_last_step:
  fixes e :: Environment
  assumes "tasks env (ident task) = Some t" "storage env (Suc (storage_calls env)) = Healthy"
    and "clock e = clock env" "storage e = storage env"
    and "\<not> throws (storage env (Suc (storage_calls env))) \<longrightarrow>
         storage_calls e = storage_calls env \<and> tasks e = tasks env
         \<and> execution_logs e = execution_logs env \<and> console e = console env"
  shows "stored_last env task t (record_run e task res (if success res then Success else Failure))"
  using assms
  by (simp add: stored_last_def record_run_fst record_run_clock_reads record_run_tasks throws_def)

lemma keepalive_stored_last:
  "tasks env (ident task) = Some t \<Longrightarrow> storage env (Suc (storage_calls env)) = Healthy \<Longrightarrow>
   stored_last env task t (executeKeepaliveTask env task)"
  by (rule keepalive_run_shape) (rule stored_last_step)

lemma notification_stored_last:
  "tasks env (ident task) = Some t \<Longrightarrow> storage env (Suc (storage_calls env)) = Healthy \<Longrightarrow>
   stored_last env task t (executeNotificationTask env task)"
  by (rule notification_run_shape) (rule stored_last_step)

lemma recorded_step:
  fixes e :: Environment
  assumes "journal e = journal env @ pre"
  shows "recorded env task (record_run e task res (if success res then Success else Failure))"
  unfolding recorded_def record_run_issued[OF assms]
  by (auto simp add: record_run_fst log_of_def split: health.splits)

lemma keepalive_recorded: "recorded env task (executeKeepaliveTask env task)"
  by (rule keepalive_run_shape) (rule recorded_step)

lemma notification_recorded: "recorded env task (executeNotificationTask env task)"
  by (rule notification_run_shape) (rule recorded_step)

lemma ordered_step:
  fixes e :: Environment
  assumes "run_up pre (ident task)" "journal e = journal env @ pre"
  shows "ordered env (record_run e task res st)"
  unfolding ordered_def record_run_issued[OF assms(2)]
  using run_up_then_recorded[OF assms(1) task_id_log_of] by simp

lemma keepalive_ordered: "ordered env (executeKeepaliveTask env task)"
  by (rule keepalive_run_shape) (rule ordered_step)

lemma notification_ordered: "ordered env (executeNotificationTask env task)"
  by (rule notification_run_shape) (rule ordered_step)

section \<open>Facts about the alert decisions\<close>

lemma scan_failures_take: "scan_failures k (take k ls) = scan_failures k ls"
  by (induction k ls rule: scan_failures.induct) simp_all

lemma scan_failures_min: "scan_failures k ls = min k (consecutive_failures ls)"
  by (induction k ls rule: scan_failures.induct) (simp_all add: consecutive_failures_def)

lemma shouldAlertOnFailure_iff:
  "shouldAlertOnFailure rows taskId k \<longleftrightarrow> k \<le> consecutive_failures (task_history rows taskId)"
  unfolding shouldAlertOnFailure_def getExecutionLogsByTaskId_def scan_failures_take
  by (simp add: scan_failures_min)

lemma success_in_span:
  assumes "l \<in> set (take k ls)" and "status l = Success"
  shows "consecutive_failures ls < k"
proof -
  from assms(1) obtain i where i: "i < k" "i < length ls" "ls ! i = l"
    by (auto simp add: in_set_conv_nth)
  have "length (takeWhile (\<lambda>l. status l = Failure) ls) \<le> i"
  proof (rule ccontr)
    assume "\<not> ?thesis"
    then have "i < length (takeWhile (\<lambda>l. status l = Failure) ls)" by simp
    then have "status (ls ! i) = Failure"
      using nth_mem[of i "takeWhile (\<lambda>l. status l = Failure) ls"] set_takeWhileD[of "ls ! i" "\<lambda>l. status l = Failure" ls]
      by (simp add: takeWhile_nth)
    with i assms(2) show False by simp
  qed
  with i show ?thesis by (simp add: consecutive_failures_def)
qed

lemma recovery_iff:
  "shouldSendRecoveryAlert rows taskId \<longleftrightarrow>
     2 \<le> length (task_history rows taskId)
     \<and> status (task_history rows taskId ! 0) = Success
     \<and> status (task_history rows taskId ! 1) = Failure"
proof (cases "task_history rows taskId")
  case Nil
  then show ?thesis
    by (simp add: shouldSendRecoveryAlert_def getExecutionLogsByTaskId_def)
next
  case (Cons a as)
  then show ?thesis
    by (cases as) (simp_all add: shouldSendRecoveryAlert_def getExecutionLogsByTaskId_def)
qed

section \<open>Failure alert\<close>

text \<open>
  C1. For every task and every threshold \<open>k\<close>, the failure-alert rule fires if and only if
  the number of consecutive failure logs of the task, counted newest first and stopping
  at the first success, is at least \<open>k\<close>; if any one of the newest \<open>k\<close> logs is a success,
  it does not fire; and \<open>sendFailureAlert\<close>, for settings whose threshold is that number,
  attempts delivery on the enabled channels exactly when the rule fires.
\<close>

theorem failure_alert_threshold:
  "(shouldAlertOnFailure rows taskId k \<longleftrightarrow> k \<le> consecutive_failures (task_history rows taskId))
   \<and> ((\<exists>l \<in> set (take k (task_history rows taskId)). status l = Success) \<longrightarrow>
         \<not> shouldAlertOnFailure rows taskId k)
   \<and> attempts (sendFailureAlert default_threshold overall deliver (Some s) rows task) =
       (if failure_threshold s \<le> consecutive_failures (task_history rows (ident task))
        then enabled_channels s else [])"
proof -
  have "\<not> shouldAlertOnFailure rows taskId k"
    if "\<exists>l \<in> set (take k (task_history rows taskId)). status l = Success"
    using that success_in_span[of _ k "task_history rows taskId"]
    by (auto simp add: shouldAlertOnFailure_iff)
  moreover have "attempts (sendFailureAlert default_threshold overall deliver (Some s) rows task) =
       (if failure_threshold s \<le> consecutive_failures (task_history rows (ident task))
        then enabled_channels s else [])"
    by (simp add: shouldAlertOnFailure_iff sendFailureAlert_def Let_def)
  ultimately show ?thesis
    by (simp add: shouldAlertOnFailure_iff)
qed

theorem failure_alert_threshold_witness:
  "(\<exists>l \<in> set (take 2 (task_history interrupted ''task-1'')). status l = Success)
   \<and> \<not> shouldAlertOnFailure interrupted ''task-1'' 2
   \<and> consecutive_failures (task_history interrupted ''task-1'') = 1
   \<and> shouldAlertOnFailure three_failures ''task-1'' 3
   \<and> consecutive_failures (task_history three_failures ''task-1'') = 3
   \<and> \<not> shouldAlertOnFailure three_failures ''task-1'' 4
   \<and> attempts (sendFailureAlert 3 (\<lambda>bs. True \<in> set bs) (\<lambda>c. True) (Some (sample_settings True))
                 three_failures sample_task) = [NotifyX]"
proof -
  have h: "\<exists>l \<in> set (take 2 (task_history interrupted ''task-1'')). status l = Success"
    by (simp add: task_history_def interrupted_def sample_log_def)
  have c: "consecutive_failures (task_history interrupted ''task-1'') = 1"
    "consecutive_failures (task_history three_failures ''task-1'') = 3"
    "consecutive_failures (task_history three_failures (ident sample_task)) = 3"
    "failure_threshold (sample_settings True) = 3"
    "enabled_channels (sample_settings True) = [NotifyX]"
    by (simp_all add: task_history_def consecutive_failures_def enabled_channels_def
          interrupted_def three_failures_def sample_log_def sample_settings_def sample_task_def)
  from failure_alert_threshold[of interrupted "''task-1''" 2] h
  have a: "\<not> shouldAlertOnFailure interrupted ''task-1'' 2" by blast
  from failure_alert_threshold[of three_failures "''task-1''" 3] c
  have b: "shouldAlertOnFailure three_failures ''task-1'' 3" by simp
  from failure_alert_threshold[of three_failures "''task-1''" 4] c
  have d: "\<not> shouldAlertOnFailure three_failures ''task-1'' 4" by simp
  from failure_alert_threshold[of three_failures "ident sample_task" 0 3 "\<lambda>bs. True \<in> set bs"
         "\<lambda>c. True" "sample_settings True" sample_task] c
  have e: "attempts (sendFailureAlert 3 (\<lambda>bs. True \<in> set bs) (\<lambda>c. True) (Some (sample_settings True))
                 three_failures sample_task) = [NotifyX]" by simp
  from h a b c d e show ?thesis by blast
qed

section \<open>Recovery alert\<close>

text \<open>
  C2. For every task, \<open>shouldSendRecoveryAlert\<close> holds if and only if the task has at least
  two execution logs and, ordered by execution time descending, the newest is a success
  and the second-newest a failure; with fewer than two logs, or when the two newest have
  the same status, it does not hold.
\<close>

theorem recovery_alert_rule:
  "(shouldSendRecoveryAlert rows taskId \<longleftrightarrow>
      2 \<le> length (task_history rows taskId)
      \<and> status (task_history rows taskId ! 0) = Success
      \<and> status (task_history rows taskId ! 1) = Failure)
   \<and> (length (task_history rows taskId) < 2 \<longrightarrow> \<not> shouldSendRecoveryAlert rows taskId)
   \<and> (2 \<le> length (task_history rows taskId)
        \<and> status (task_history rows taskId ! 0) = status (task_history rows taskId ! 1) \<longrightarrow>
       \<not> shouldSendRecoveryAlert rows taskId)"
  by (auto simp add: recovery_iff)

theorem recovery_alert_rule_witness:
  "shouldSendRecoveryAlert recovered ''task-1''
   \<and> map status (task_history recovered ''task-1'') = [Success, Failure, Failure]
   \<and> length (task_history first_run ''task-1'') < 2
   \<and> \<not> shouldSendRecoveryAlert first_run ''task-1''
   \<and> 2 \<le> length (task_history steady ''task-1'')
   \<and> status (task_history steady ''task-1'' ! 0) = status (task_history steady ''task-1'' ! 1)
   \<and> \<not> shouldSendRecoveryAlert steady ''task-1''"
proof -
  have r: "map status (task_history recovered ''task-1'') = [Success, Failure, Failure]"
    "2 \<le> length (task_history recovered ''task-1'')"
    "status (task_history recovered ''task-1'' ! 0) = Success"
    "status (task_history recovered ''task-1'' ! 1) = Failure"
    by (simp_all add: task_history_def recovered_def sample_log_def)
  have f: "length (task_history first_run ''task-1'') < 2"
    by (simp add: task_history_def first_run_def sample_log_def)
  have s: "2 \<le> length (task_history steady ''task-1'')"
    "status (task_history steady ''task-1'' ! 0) = status (task_history steady ''task-1'' ! 1)"
    by (simp_all add: task_history_def steady_def sample_log_def)
  from recovery_alert_rule[of recovered "''task-1''"] r
  have a: "shouldSendRecoveryAlert recovered ''task-1''" by blast
  from recovery_alert_rule[of first_run "''task-1''"] f
  have b: "\<not> shouldSendRecoveryAlert first_run ''task-1''" by blast
  from recovery_alert_rule[of steady "''task-1''"] s
  have c: "\<not> shouldSendRecoveryAlert steady ''task-1''" by blast
  from r f s a b c show ?thesis by blast
qed

section \<open>Keepalive runs\<close>

text \<open>
  C3. For every keepalive task: a returned result is a success only if the request got a
  response whose \<open>ok\<close> flag is set, and it then carries the status of that response. In
  a run in which the update of the task does not throw, \<open>executeKeepaliveTask\<close> returns
  a result, which is a success exactly when the request got a response whose \<open>ok\<close> flag
  is set; a response gives \<open>statusCode\<close> its status (so a response with status 500 and
  \<open>ok\<close> unset gives \<open>success = false\<close> and \<open>statusCode = 500\<close>); an error thrown by the
  transport is caught and gives a failure result whose \<open>error\<close> is the message of the
  thrown error. The error of the transport never leaves the executor: the run returns
  that failure result unless the update in the \<^verbatim>\<open>catch\<close> block throws, and then it is the
  exception of the storage layer that leaves. When the first update throws, every result
  returned is a failure that carries the message of the storage layer, also after a
  response whose \<open>ok\<close> flag is set.
\<close>

theorem keepalive_classification:
  assumes "task_type task = Keepalive"
  shows "(\<forall>r. fst (executeKeepaliveTask env task) = Resolved r \<and> success r \<longrightarrow>
            (\<exists>cfg init response. config task = KeepaliveCfg cfg \<and> requestOptions cfg = Inr init
               \<and> transport env (url cfg) init = Resolved response \<and> ok response
               \<and> statusCode r = Some (http_status response)))
       \<and> (\<not> throws (storage env (Suc (storage_calls env))) \<longrightarrow>
            (\<exists>r. fst (executeKeepaliveTask env task) = Resolved r
               \<and> (success r \<longleftrightarrow>
                    (\<exists>cfg init response. config task = KeepaliveCfg cfg
                       \<and> requestOptions cfg = Inr init
                       \<and> transport env (url cfg) init = Resolved response \<and> ok response)))
          \<and> (\<forall>cfg init response. config task = KeepaliveCfg cfg \<and> requestOptions cfg = Inr init
                 \<and> transport env (url cfg) init = Resolved response \<longrightarrow>
               (\<exists>r. fst (executeKeepaliveTask env task) = Resolved r
                  \<and> success r = ok response \<and> statusCode r = Some (http_status response)))
          \<and> (\<forall>cfg init response. config task = KeepaliveCfg cfg \<and> requestOptions cfg = Inr init
                 \<and> transport env (url cfg) init = Resolved response
                 \<and> http_status response = 500 \<and> \<not> ok response \<longrightarrow>
               (\<exists>r. fst (executeKeepaliveTask env task) = Resolved r
                  \<and> \<not> success r \<and> statusCode r = Some 500))
          \<and> (\<forall>cfg init m. config task = KeepaliveCfg cfg \<and> requestOptions cfg = Inr init
                 \<and> transport env (url cfg) init = Rejected (Error m) \<longrightarrow>
               (\<exists>r. fst (executeKeepaliveTask env task) = Resolved r
                  \<and> \<not> success r \<and> error r = Some m \<and> statusCode r = None)))
       \<and> (\<forall>cfg init m. config task = KeepaliveCfg cfg \<and> requestOptions cfg = Inr init
              \<and> transport env (url cfg) init = Rejected (Error m) \<longrightarrow>
            (case storage env (Suc (storage_calls env)) of
               Throwing m' \<Rightarrow> fst (executeKeepaliveTask env task) = Rejected (Error m')
             | _ \<Rightarrow> (\<exists>r. fst (executeKeepaliveTask env task) = Resolved r
                        \<and> \<not> success r \<and> error r = Some m \<and> statusCode r = None)))
       \<and> (\<forall>m' r. storage env (Suc (storage_calls env)) = Throwing m'
              \<and> fst (executeKeepaliveTask env task) = Resolved r \<longrightarrow>
            \<not> success r \<and> error r = Some m' \<and> statusCode r = None)"
proof (cases "config task")
  case (NotificationCfg c)
  with assms show ?thesis
    by (simp add: keepalive_wrong_shape record_run_fst throws_def split: health.splits)
next
  case (KeepaliveCfg cfg)
  show ?thesis
  proof (cases "requestOptions cfg")
    case (Inl x)
    with assms KeepaliveCfg show ?thesis
      by (simp add: keepalive_bad_delay record_run_fst throws_def split: health.splits)
  next
    case (Inr init)
    show ?thesis
    proof (cases "transport env (url cfg) init")
      case (Rejected x)
      with assms KeepaliveCfg Inr show ?thesis
        by (simp add: keepalive_rejected record_run_fst message_of_def throws_def
            split: health.splits)
    next
      case (Resolved response)
      show ?thesis
      proof (cases "throws (storage env (Suc (storage_calls env)))")
        case False
        with assms KeepaliveCfg Inr Resolved show ?thesis
          by (simp add: keepalive_responded record_run_resolves throws_def split: health.splits)
      next
        case True
        then obtain m where m: "storage env (Suc (storage_calls env)) = Throwing m"
          by (cases "storage env (Suc (storage_calls env))") (simp_all add: throws_def)
        with assms KeepaliveCfg Inr Resolved True show ?thesis
          by (cases "storage env (Suc (Suc (Suc (storage_calls env))))")
             (simp_all add: keepalive_retried_fst throws_def)
      qed
    qed
  qed
qed

theorem keepalive_classification_witness:
  "task_type sample_task = Keepalive
   \<and> config sample_task = KeepaliveCfg sample_config
   \<and> requestOptions sample_config
       = Inr \<lparr>req_method = ''GET'', req_headers = [], req_body = None, req_timeout = 30000\<rparr>
   \<and> \<not> throws (storage (sample_env all_healthy (Resolved (sample_response 500 ''Internal Server Error'')))
          (Suc (storage_calls (sample_env all_healthy (Resolved (sample_response 500 ''Internal Server Error''))))))
   \<and> http_status (sample_response 500 ''Internal Server Error'') = 500
   \<and> \<not> ok (sample_response 500 ''Internal Server Error'')
   \<and> (\<exists>r. fst (executeKeepaliveTask
                  (sample_env all_healthy (Resolved (sample_response 500 ''Internal Server Error'')))
                  sample_task) = Resolved r
          \<and> \<not> success r \<and> statusCode r = Some 500)
   \<and> (\<exists>r. fst (executeKeepaliveTask
                  (sample_env all_healthy (Rejected (Error ''getaddrinfo ENOTFOUND''))) sample_task)
             = Resolved r
          \<and> \<not> success r \<and> error r = Some ''getaddrinfo ENOTFOUND'')
   \<and> (\<exists>r. fst (executeKeepaliveTask
                  (sample_env all_healthy (Resolved (sample_response 204 ''No Content''))) sample_task)
             = Resolved r
          \<and> success r \<and> statusCode r = Some 204)
   \<and> storage (sample_env update_throws (Rejected (Error ''getaddrinfo ENOTFOUND'')))
        (Suc (storage_calls (sample_env update_throws (Rejected (Error ''getaddrinfo ENOTFOUND'')))))
       = Throwing ''db down''
   \<and> fst (executeKeepaliveTask
             (sample_env update_throws (Rejected (Error ''getaddrinfo ENOTFOUND''))) sample_task)
       = Rejected (Error ''db down'')
   \<and> storage (sample_env update_throws (Resolved (sample_response 204 ''No Content'')))
        (Suc (storage_calls (sample_env update_throws (Resolved (sample_response 204 ''No Content'')))))
       = Throwing ''db down''
   \<and> fst (executeKeepaliveTask
             (sample_env update_throws (Resolved (sample_response 204 ''No Content''))) sample_task)
       = Resolved (sample_failure\<lparr>responseTime := 50, error := Some ''db down'', timestamp := 1060\<rparr>)
   \<and> \<not> success (sample_failure\<lparr>responseTime := 50, error := Some ''db down'', timestamp := 1060\<rparr>)
   \<and> error (sample_failure\<lparr>responseTime := 50, error := Some ''db down'', timestamp := 1060\<rparr>)
       = Some ''db down''"
proof -
  let ?R = "sample_response 500 ''Internal Server Error''"
  let ?I = "\<lparr>req_method = ''GET'', req_headers = [], req_body = None, req_timeout = 30000\<rparr>"
  let ?E1 = "sample_env all_healthy (Resolved ?R)"
  let ?E2 = "sample_env all_healthy (Rejected (Error ''getaddrinfo ENOTFOUND''))"
  let ?E3 = "sample_env all_healthy (Resolved (sample_response 204 ''No Content''))"
  let ?E4 = "sample_env update_throws (Rejected (Error ''getaddrinfo ENOTFOUND''))"
  let ?E5 = "sample_env update_throws (Resolved (sample_response 204 ''No Content''))"
  have kt: "task_type sample_task = Keepalive" and cfg: "config sample_task = KeepaliveCfg sample_config"
    by (simp_all add: sample_task_def)
  have ro: "requestOptions sample_config = Inr ?I"
    by (simp add: requestOptions_def AbortSignal_timeout_def sample_config_def truthy_def)
  have n: "\<not> throws (storage ?E1 (Suc (storage_calls ?E1)))"
    "\<not> throws (storage ?E2 (Suc (storage_calls ?E2)))"
    "\<not> throws (storage ?E3 (Suc (storage_calls ?E3)))"
    by (simp_all add: sample_env_def all_healthy_def throws_def)
  have th: "storage ?E4 (Suc (storage_calls ?E4)) = Throwing ''db down''"
    "storage ?E5 (Suc (storage_calls ?E5)) = Throwing ''db down''"
    by (simp_all add: sample_env_def update_throws_def)
  have t: "transport ?E1 (url sample_config) ?I = Resolved ?R"
    "transport ?E2 (url sample_config) ?I = Rejected (Error ''getaddrinfo ENOTFOUND'')"
    "transport ?E3 (url sample_config) ?I = Resolved (sample_response 204 ''No Content'')"
    "transport ?E4 (url sample_config) ?I = Rejected (Error ''getaddrinfo ENOTFOUND'')"
    by (simp_all add: sample_env_def)
  have r: "http_status ?R = 500" "\<not> ok ?R"
    "ok (sample_response 204 ''No Content'')" "http_status (sample_response 204 ''No Content'') = 204"
    by (simp_all add: sample_response_def)
  note b1 = keepalive_classification[OF kt, of ?E1, THEN conjunct2, THEN conjunct1, THEN mp, OF n(1)]
  note b2 = keepalive_classification[OF kt, of ?E2, THEN conjunct2, THEN conjunct1, THEN mp, OF n(2)]
  note b3 = keepalive_classification[OF kt, of ?E3, THEN conjunct2, THEN conjunct1, THEN mp, OF n(3)]
  note u4 = keepalive_classification[OF kt, of ?E4, THEN conjunct2, THEN conjunct2, THEN conjunct1]
  note u5 = keepalive_classification[OF kt, of ?E5, THEN conjunct2, THEN conjunct2, THEN conjunct2]
  from b1[THEN conjunct2, THEN conjunct2, THEN conjunct1] cfg ro t(1) r(1,2)
  have c1: "\<exists>r. fst (executeKeepaliveTask ?E1 sample_task) = Resolved r
              \<and> \<not> success r \<and> statusCode r = Some 500"
    by blast
  from b2[THEN conjunct2, THEN conjunct2, THEN conjunct2] cfg ro t(2)
  have c2: "\<exists>r. fst (executeKeepaliveTask ?E2 sample_task) = Resolved r
              \<and> \<not> success r \<and> error r = Some ''getaddrinfo ENOTFOUND''"
    by blast
  from b3[THEN conjunct2, THEN conjunct1] cfg ro t(3)
  have "\<exists>r. fst (executeKeepaliveTask ?E3 sample_task) = Resolved r
          \<and> success r = ok (sample_response 204 ''No Content'')
          \<and> statusCode r = Some (http_status (sample_response 204 ''No Content''))"
    by blast
  with r(3,4)
  have c3: "\<exists>r. fst (executeKeepaliveTask ?E3 sample_task) = Resolved r
              \<and> success r \<and> statusCode r = Some 204"
    by simp
  from u4 cfg ro t(4)
  have "case storage ?E4 (Suc (storage_calls ?E4)) of
          Throwing m' \<Rightarrow> fst (executeKeepaliveTask ?E4 sample_task) = Rejected (Error m')
        | _ \<Rightarrow> (\<exists>r. fst (executeKeepaliveTask ?E4 sample_task) = Resolved r
                   \<and> \<not> success r \<and> error r = Some ''getaddrinfo ENOTFOUND''
                   \<and> statusCode r = None)"
    by blast
  with th(1)
  have c4: "fst (executeKeepaliveTask ?E4 sample_task) = Rejected (Error ''db down'')"
    by simp
  have e5: "fst (executeKeepaliveTask ?E5 sample_task)
              = Resolved (sample_failure\<lparr>responseTime := 50, error := Some ''db down'',
                            timestamp := 1060\<rparr>)"
    by (simp add: executeKeepaliveTask_def keepalive_try_def requestOptions_def
          AbortSignal_timeout_def truthy_def catch_block_def record_run_def logExecution_def
          ExecutionLogModel_create_def DatabaseUtils_createExecutionLog_def
          DatabaseUtils_updateTask_def storage_turn_def fetch_def Date_now_def console_error_def
          message_of_def succeeded_def failed_def stamp_def no_patch_def apply_patch_def Let_def
          sample_env_def update_throws_def sample_task_def sample_config_def sample_response_def
          sample_failure_def)
  from u5 th(2) e5
  have c5: "\<not> success (sample_failure\<lparr>responseTime := 50, error := Some ''db down'',
                            timestamp := 1060\<rparr>)
            \<and> error (sample_failure\<lparr>responseTime := 50, error := Some ''db down'',
                            timestamp := 1060\<rparr>) = Some ''db down''"
    by blast
  from kt cfg ro n(1) r(1,2) c1 c2 c3 th c4 e5 c5 show ?thesis by blast
qed

text \<open>
  C3, as first stated, fails when the update of the task throws. On the sample data, with
  the storage layer throwing \<open>db down\<close> at the first update: a response with status 204
  and \<open>ok\<close> set is returned as a failure without status code, and with a transport error
  the run returns no result at all, the exception of the storage layer leaves the
  executor.
\<close>

theorem ok_response_returned_as_failure:
  "task_type sample_task = Keepalive
   \<and> transport (sample_env update_throws (Resolved (sample_response 204 ''No Content'')))
        ''https://example.com/health''
        \<lparr>req_method = ''GET'', req_headers = [], req_body = None, req_timeout = 30000\<rparr>
       = Resolved (sample_response 204 ''No Content'')
   \<and> ok (sample_response 204 ''No Content'')
   \<and> fst (executeKeepaliveTask
             (sample_env update_throws (Resolved (sample_response 204 ''No Content''))) sample_task)
       = Resolved \<lparr>success = False, responseTime = 50, statusCode = None,
                   error = Some ''db down'', timestamp = 1060\<rparr>
   \<and> issued (sample_env update_throws (Resolved (sample_response 204 ''No Content'')))
        (snd (executeKeepaliveTask
                (sample_env update_throws (Resolved (sample_response 204 ''No Content''))) sample_task))
        ! 0
       = Fetch ''https://example.com/health''
           \<lparr>req_method = ''GET'', req_headers = [], req_body = None, req_timeout = 30000\<rparr>
   \<and> fst (executeKeepaliveTask
             (sample_env update_throws (Rejected (Error ''getaddrinfo ENOTFOUND''))) sample_task)
       = Rejected (Error ''db down'')"
  by (simp add: executeKeepaliveTask_def keepalive_try_def requestOptions_def AbortSignal_timeout_def
      truthy_def catch_block_def record_run_def logExecution_def
      ExecutionLogModel_create_def DatabaseUtils_createExecutionLog_def
      DatabaseUtils_updateTask_def storage_turn_def fetch_def Date_now_def console_error_def
      message_of_def succeeded_def failed_def stamp_def no_patch_def apply_patch_def
      issued_def Let_def
      sample_env_def update_throws_def sample_task_def sample_config_def sample_response_def)

section \<open>Recording a result\<close>

text \<open>
  C4. For every task and every execution result with \<open>success = false\<close> and \<open>error = X\<close>,
  recording the result issues the write of an execution log with status \<open>failure\<close> and
  error message \<open>X\<close> for that task, followed by the update of the task that sets
  \<open>last_status\<close> to \<open>failure\<close>; with a healthy storage layer the log is stored and the
  stored task has \<open>last_status = failure\<close>. Whenever an executor returns such a result,
  these are the last two calls of its run.
\<close>

theorem failed_result_round_trip:
  assumes "\<not> success res" and "error res = Some X"
  shows "issued env (snd (record_run env task res (if success res then Success else Failure))) =
           [CreateExecutionLog (log_of env (ident task) res),
            UpdateTask (ident task) (stamp (clock env (Suc (clock_reads env))) Failure)]
       \<and> task_id (log_of env (ident task) res) = Some (ident task)
       \<and> status (log_of env (ident task) res) = Failure
       \<and> error_message (log_of env (ident task) res) = Some X
       \<and> (storage env (storage_calls env) = Healthy \<longrightarrow>
            execution_logs (snd (record_run env task res (if success res then Success else Failure))) =
              log_of env (ident task) res # execution_logs env)
       \<and> (\<forall>t. tasks env (ident task) = Some t \<and> storage env (Suc (storage_calls env)) = Healthy \<longrightarrow>
            tasks (snd (record_run env task res (if success res then Success else Failure))) (ident task) =
              Some (t\<lparr>last_executed := Some (clock env (Suc (clock_reads env))),
                      last_status := Some Failure\<rparr>))
       \<and> (fst (executeKeepaliveTask env task) = Resolved res \<longrightarrow>
            (\<exists>pre log now.
               issued env (snd (executeKeepaliveTask env task)) =
                 pre @ [CreateExecutionLog log, UpdateTask (ident task) (stamp now Failure)]
               \<and> task_id log = Some (ident task) \<and> status log = Failure
               \<and> error_message log = Some X \<and> details log = Some res))
       \<and> (fst (executeNotificationTask env task) = Resolved res \<longrightarrow>
            (\<exists>pre log now.
               issued env (snd (executeNotificationTask env task)) =
                 pre @ [CreateExecutionLog log, UpdateTask (ident task) (stamp now Failure)]
               \<and> task_id log = Some (ident task) \<and> status log = Failure
               \<and> error_message log = Some X \<and> details log = Some res))"
proof -
  have a: "issued env (snd (record_run env task res (if success res then Success else Failure))) =
           [CreateExecutionLog (log_of env (ident task) res),
            UpdateTask (ident task) (stamp (clock env (Suc (clock_reads env))) Failure)]"
    using assms record_run_issued[of env env "[]" task res] by simp
  have b: "task_id (log_of env (ident task) res) = Some (ident task)
       \<and> status (log_of env (ident task) res) = Failure
       \<and> error_message (log_of env (ident task) res) = Some X"
    using assms by (simp add: log_of_def)
  have c: "storage env (storage_calls env) = Healthy \<longrightarrow>
            execution_logs (snd (record_run env task res (if success res then Success else Failure))) =
              log_of env (ident task) res # execution_logs env"
    by (simp add: record_run_eq)
  have d: "\<forall>t. tasks env (ident task) = Some t \<and> storage env (Suc (storage_calls env)) = Healthy \<longrightarrow>
            tasks (snd (record_run env task res (if success res then Success else Failure))) (ident task) =
              Some (t\<lparr>last_executed := Some (clock env (Suc (clock_reads env))),
                      last_status := Some Failure\<rparr>)"
    using assms by (simp add: record_run_tasks)
  have e: "fst (executeKeepaliveTask env task) = Resolved res \<longrightarrow>
            (\<exists>pre log now.
               issued env (snd (executeKeepaliveTask env task)) =
                 pre @ [CreateExecutionLog log, UpdateTask (ident task) (stamp now Failure)]
               \<and> task_id log = Some (ident task) \<and> status log = Failure
               \<and> error_message log = Some X \<and> details log = Some res)"
    using keepalive_recorded[of env task] assms unfolding recorded_def by fastforce
  have f: "fst (executeNotificationTask env task) = Resolved res \<longrightarrow>
            (\<exists>pre log now.
               issued env (snd (executeNotificationTask env task)) =
                 pre @ [CreateExecutionLog log, UpdateTask (ident task) (stamp now Failure)]
               \<and> task_id log = Some (ident task) \<and> status log = Failure
               \<and> error_message log = Some X \<and> details log = Some res)"
    using notification_recorded[of env task] assms unfolding recorded_def by fastforce
  from a b c d e f show ?thesis by blast
qed

theorem failed_result_round_trip_witness:
  "\<not> success sample_failure \<and> error sample_failure = Some ''X''
   \<and> storage (sample_env all_healthy (Rejected (Error ''X'')))
        (storage_calls (sample_env all_healthy (Rejected (Error ''X'')))) = Healthy
   \<and> tasks (sample_env all_healthy (Rejected (Error ''X''))) (ident sample_task) = Some sample_task
   \<and> storage (sample_env all_healthy (Rejected (Error ''X'')))
        (Suc (storage_calls (sample_env all_healthy (Rejected (Error ''X''))))) = Healthy
   \<and> fst (executeKeepaliveTask (sample_env all_healthy (Rejected (Error ''X''))) sample_task)
       = Resolved sample_failure
   \<and> fst (executeNotificationTask (sample_env all_healthy (Rejected (Error ''X''))) sample_notice)
       = Resolved sample_failure
   \<and> execution_logs (snd (record_run (sample_env all_healthy (Rejected (Error ''X''))) sample_task
         sample_failure (if success sample_failure then Success else Failure)))
       = [log_of (sample_env all_healthy (Rejected (Error ''X''))) (ident sample_task) sample_failure]
   \<and> status (log_of (sample_env all_healthy (Rejected (Error ''X''))) (ident sample_task) sample_failure)
       = Failure
   \<and> error_message (log_of (sample_env all_healthy (Rejected (Error ''X''))) (ident sample_task)
         sample_failure) = Some ''X''
   \<and> tasks (snd (record_run (sample_env all_healthy (Rejected (Error ''X''))) sample_task
         sample_failure (if success sample_failure then Success else Failure))) (ident sample_task)
       = Some (sample_task\<lparr>last_executed := Some 1010, last_status := Some Failure\<rparr>)
   \<and> (\<exists>pre log now.
         issued (sample_env all_healthy (Rejected (Error ''X'')))
           (snd (executeKeepaliveTask (sample_env all_healthy (Rejected (Error ''X''))) sample_task))
           = pre @ [CreateExecutionLog log, UpdateTask (ident sample_task) (stamp now Failure)]
         \<and> status log = Failure \<and> error_message log = Some ''X'')
   \<and> (\<exists>pre log now.
         issued (sample_env all_healthy (Rejected (Error ''X'')))
           (snd (executeNotificationTask (sample_env all_healthy (Rejected (Error ''X''))) sample_notice))
           = pre @ [CreateExecutionLog log, UpdateTask (ident sample_notice) (stamp now Failure)]
         \<and> status log = Failure \<and> error_message log = Some ''X'')"
proof -
  let ?E = "sample_env all_healthy (Rejected (Error ''X''))"
  have h: "\<not> success sample_failure" "error sample_failure = Some ''X''"
    by (simp_all add: sample_failure_def)
  have s: "storage ?E (storage_calls ?E) = Healthy"
    "tasks ?E (ident sample_task) = Some sample_task"
    "storage ?E (Suc (storage_calls ?E)) = Healthy"
    "execution_logs ?E = []" "clock ?E (Suc (clock_reads ?E)) = 1010"
    by (simp_all add: sample_env_def sample_task_def all_healthy_def)
  have k: "fst (executeKeepaliveTask ?E sample_task) = Resolved sample_failure"
    "fst (executeNotificationTask ?E sample_notice) = Resolved sample_failure"
    by (simp_all add: executeKeepaliveTask_def keepalive_try_def requestOptions_def AbortSignal_timeout_def
          truthy_def
          executeNotificationTask_def notification_try_def notifyx_request_def or_else_def
          catch_block_def record_run_def logExecution_def
          ExecutionLogModel_create_def DatabaseUtils_createExecutionLog_def
          DatabaseUtils_updateTask_def storage_turn_def fetch_def Date_now_def console_error_def
          message_of_def succeeded_def failed_def stamp_def no_patch_def apply_patch_def
          issued_def Let_def
          sample_env_def all_healthy_def sample_task_def sample_config_def sample_notice_def
          sample_notification_def sample_failure_def)
  note T1 = failed_result_round_trip[OF h, of ?E sample_task]
  note T2 = failed_result_round_trip[OF h, of ?E sample_notice]
  from T1 s have a:
    "execution_logs (snd (record_run ?E sample_task sample_failure
         (if success sample_failure then Success else Failure)))
       = [log_of ?E (ident sample_task) sample_failure]"
    "status (log_of ?E (ident sample_task) sample_failure) = Failure"
    "error_message (log_of ?E (ident sample_task) sample_failure) = Some ''X''"
    "tasks (snd (record_run ?E sample_task sample_failure
         (if success sample_failure then Success else Failure))) (ident sample_task)
       = Some (sample_task\<lparr>last_executed := Some 1010, last_status := Some Failure\<rparr>)"
    by simp_all
  from T1 k have b: "\<exists>pre log now.
         issued ?E (snd (executeKeepaliveTask ?E sample_task))
           = pre @ [CreateExecutionLog log, UpdateTask (ident sample_task) (stamp now Failure)]
         \<and> status log = Failure \<and> error_message log = Some ''X''"
    by blast
  from T2 k have c: "\<exists>pre log now.
         issued ?E (snd (executeNotificationTask ?E sample_notice))
           = pre @ [CreateExecutionLog log, UpdateTask (ident sample_notice) (stamp now Failure)]
         \<and> status log = Failure \<and> error_message log = Some ''X''"
    by blast
  from h s(1-3) k a b c show ?thesis by blast
qed

text \<open>
  C5. Every run of \<open>executeKeepaliveTask\<close> and of \<open>executeNotificationTask\<close>, whatever
  the transport and the storage layer do, ends by issuing the update of the task that sets
  \<open>last_executed\<close> to the time read for that update (the last reading of the clock in the
  run) and \<open>last_status\<close> to \<open>success\<close> if the returned result is a success and to
  \<open>failure\<close> otherwise; with a stored task and a healthy answer to the update, the
  stored task carries these two values.
\<close>

theorem last_state_updated_after_every_run:
  "(issued env (snd (executeKeepaliveTask env task)) \<noteq> []
      \<and> last (issued env (snd (executeKeepaliveTask env task))) =
          UpdateTask (ident task)
            (stamp (clock env (clock_reads (snd (executeKeepaliveTask env task)) - 1))
               (case fst (executeKeepaliveTask env task) of
                  Resolved r \<Rightarrow> if success r then Success else Failure
                | Rejected x \<Rightarrow> Failure)))
   \<and> (issued env (snd (executeNotificationTask env task)) \<noteq> []
      \<and> last (issued env (snd (executeNotificationTask env task))) =
          UpdateTask (ident task)
            (stamp (clock env (clock_reads (snd (executeNotificationTask env task)) - 1))
               (case fst (executeNotificationTask env task) of
                  Resolved r \<Rightarrow> if success r then Success else Failure
                | Rejected x \<Rightarrow> Failure)))
   \<and> (\<forall>t. tasks env (ident task) = Some t \<and> storage env (Suc (storage_calls env)) = Healthy \<longrightarrow>
         (\<exists>r. fst (executeKeepaliveTask env task) = Resolved r \<and>
            tasks (snd (executeKeepaliveTask env task)) (ident task) =
              Some (t\<lparr>last_executed :=
                        Some (clock env (clock_reads (snd (executeKeepaliveTask env task)) - 1)),
                      last_status := Some (if success r then Success else Failure)\<rparr>))
       \<and> (\<exists>r. fst (executeNotificationTask env task) = Resolved r \<and>
            tasks (snd (executeNotificationTask env task)) (ident task) =
              Some (t\<lparr>last_executed :=
                        Some (clock env (clock_reads (snd (executeNotificationTask env task)) - 1)),
                      last_status := Some (if success r then Success else Failure)\<rparr>)))"
  using keepalive_updated_last[of env task] notification_updated_last[of env task]
    keepalive_stored_last[of env task] notification_stored_last[of env task]
  unfolding updated_last_def stored_last_def by blast

theorem last_state_updated_after_every_run_witness:
  "tasks (sample_env all_healthy (Resolved (sample_response 500 ''Internal Server Error'')))
      (ident sample_task) = Some sample_task
   \<and> storage (sample_env all_healthy (Resolved (sample_response 500 ''Internal Server Error'')))
        (Suc (storage_calls (sample_env all_healthy (Resolved (sample_response 500 ''Internal Server Error'')))))
       = Healthy
   \<and> (\<exists>r. fst (executeKeepaliveTask
                  (sample_env all_healthy (Resolved (sample_response 500 ''Internal Server Error'')))
                  sample_task) = Resolved r
          \<and> tasks (snd (executeKeepaliveTask
                  (sample_env all_healthy (Resolved (sample_response 500 ''Internal Server Error'')))
                  sample_task)) (ident sample_task)
             = Some (sample_task\<lparr>last_executed := Some 1040,
                       last_status := Some (if success r then Success else Failure)\<rparr>))
   \<and> tasks (snd (executeKeepaliveTask
                  (sample_env all_healthy (Resolved (sample_response 500 ''Internal Server Error'')))
                  sample_task)) ''task-1''
       = Some (sample_task\<lparr>last_executed := Some 1040, last_status := Some Failure\<rparr>)
   \<and> tasks (snd (executeKeepaliveTask
                  (sample_env all_healthy (Resolved (sample_response 204 ''No Content'')))
                  sample_task)) ''task-1''
       = Some (sample_task\<lparr>last_executed := Some 1040, last_status := Some Success\<rparr>)"
proof -
  let ?E = "sample_env all_healthy (Resolved (sample_response 500 ''Internal Server Error''))"
  have h: "tasks ?E (ident sample_task) = Some sample_task"
    "storage ?E (Suc (storage_calls ?E)) = Healthy"
    by (simp_all add: sample_env_def sample_task_def all_healthy_def)
  have k: "clock ?E (clock_reads (snd (executeKeepaliveTask ?E sample_task)) - 1) = 1040"
    by (simp add: executeKeepaliveTask_def keepalive_try_def requestOptions_def AbortSignal_timeout_def
          truthy_def
          catch_block_def record_run_def logExecution_def
          ExecutionLogModel_create_def DatabaseUtils_createExecutionLog_def
          DatabaseUtils_updateTask_def storage_turn_def fetch_def Date_now_def console_error_def
          message_of_def succeeded_def failed_def stamp_def no_patch_def apply_patch_def
          issued_def Let_def
          sample_env_def all_healthy_def sample_task_def sample_config_def sample_response_def)
  from last_state_updated_after_every_run[of ?E sample_task] h k
  have a: "\<exists>r. fst (executeKeepaliveTask ?E sample_task) = Resolved r
          \<and> tasks (snd (executeKeepaliveTask ?E sample_task)) (ident sample_task)
             = Some (sample_task\<lparr>last_executed := Some 1040,
                       last_status := Some (if success r then Success else Failure)\<rparr>)"
    by simp
  have b: "tasks (snd (executeKeepaliveTask ?E sample_task)) ''task-1''
       = Some (sample_task\<lparr>last_executed := Some 1040, last_status := Some Failure\<rparr>)"
    by (simp add: executeKeepaliveTask_def keepalive_try_def requestOptions_def AbortSignal_timeout_def
          truthy_def
          catch_block_def record_run_def logExecution_def
          ExecutionLogModel_create_def DatabaseUtils_createExecutionLog_def
          DatabaseUtils_updateTask_def storage_turn_def fetch_def Date_now_def console_error_def
          message_of_def succeeded_def failed_def stamp_def no_patch_def apply_patch_def
          issued_def Let_def
          sample_env_def all_healthy_def sample_task_def sample_config_def sample_response_def)
  have c: "tasks (snd (executeKeepaliveTask
                  (sample_env all_healthy (Resolved (sample_response 204 ''No Content'')))
                  sample_task)) ''task-1''
       = Some (sample_task\<lparr>last_executed := Some 1040, last_status := Some Success\<rparr>)"
    by (simp add: executeKeepaliveTask_def keepalive_try_def requestOptions_def AbortSignal_timeout_def
          truthy_def
          catch_block_def record_run_def logExecution_def
          ExecutionLogModel_create_def DatabaseUtils_createExecutionLog_def
          DatabaseUtils_updateTask_def storage_turn_def fetch_def Date_now_def console_error_def
          message_of_def succeeded_def failed_def stamp_def no_patch_def apply_patch_def
          issued_def Let_def
          sample_env_def all_healthy_def sample_task_def sample_config_def sample_response_def)
  from h a b c show ?thesis by blast
qed

text \<open>
  C6. In every run of an executor each task update comes directly after the write of an
  execution log for the same task, and an update is issued. \<open>logExecution\<close> never throws:
  when the log write throws, the error is caught and written to the console; when the
  log write returns an unsuccessful result, the result is dropped and nothing is written
  to the console. In either case the task update is still issued after the log write.
\<close>

theorem log_write_precedes_update:
  "log_precedes_update (issued env (snd (executeKeepaliveTask env task)))
   \<and> list_ex is_update (issued env (snd (executeKeepaliveTask env task)))
   \<and> log_precedes_update (issued env (snd (executeNotificationTask env task)))
   \<and> list_ex is_update (issued env (snd (executeNotificationTask env task)))
   \<and> fst (logExecution env taskId res) = Resolved ()
   \<and> (\<forall>m. storage env (storage_calls env) = Throwing m \<longrightarrow>
         console (snd (logExecution env taskId res)) = console env @ [log_write_failed @ m])
   \<and> (\<forall>m. storage env (storage_calls env) = Failing m \<longrightarrow>
         console (snd (logExecution env taskId res)) = console env)
   \<and> issued env (snd (record_run env task res st)) =
        [CreateExecutionLog (log_of env (ident task) res),
         UpdateTask (ident task) (stamp (clock env (Suc (clock_reads env))) st)]"
  using keepalive_ordered[of env task] notification_ordered[of env task]
    record_run_issued[of env env "[]" task res st]
  by (simp add: ordered_def logExecution_eq)

theorem log_write_precedes_update_witness:
  "storage (sample_env log_write_throws (Rejected (Error ''X'')))
      (storage_calls (sample_env log_write_throws (Rejected (Error ''X'')))) = Throwing ''disk full''
   \<and> console (snd (logExecution (sample_env log_write_throws (Rejected (Error ''X''))) ''task-1''
        sample_failure)) = [log_write_failed @ ''disk full'']
   \<and> storage (sample_env log_write_fails (Rejected (Error ''X'')))
      (storage_calls (sample_env log_write_fails (Rejected (Error ''X'')))) = Failing ''disk full''
   \<and> console (snd (logExecution (sample_env log_write_fails (Rejected (Error ''X''))) ''task-1''
        sample_failure)) = []
   \<and> fst (logExecution (sample_env log_write_throws (Rejected (Error ''X''))) ''task-1''
        sample_failure) = Resolved ()
   \<and> log_precedes_update (issued (sample_env log_write_throws (Rejected (Error ''X'')))
        (snd (executeKeepaliveTask (sample_env log_write_throws (Rejected (Error ''X''))) sample_task)))
   \<and> map is_update (issued (sample_env log_write_throws (Rejected (Error ''X'')))
        (snd (executeKeepaliveTask (sample_env log_write_throws (Rejected (Error ''X''))) sample_task)))
       = [False, False, True]"
proof -
  let ?T = "sample_env log_write_throws (Rejected (Error ''X''))"
  let ?F = "sample_env log_write_fails (Rejected (Error ''X''))"
  have h: "storage ?T (storage_calls ?T) = Throwing ''disk full''"
    "storage ?F (storage_calls ?F) = Failing ''disk full''"
    "console ?T = []" "console ?F = []"
    by (simp_all add: sample_env_def log_write_throws_def log_write_fails_def)
  note T1 = log_write_precedes_update[where env = ?T and task = sample_task and taskId = "''task-1''"
      and res = sample_failure and st = Failure]
  note T2 = log_write_precedes_update[where env = ?F and task = sample_task and taskId = "''task-1''"
      and res = sample_failure and st = Failure]
  from T1 h have a:
    "console (snd (logExecution ?T ''task-1'' sample_failure)) = [log_write_failed @ ''disk full'']"
    "fst (logExecution ?T ''task-1'' sample_failure) = Resolved ()"
    "log_precedes_update (issued ?T (snd (executeKeepaliveTask ?T sample_task)))"
    by simp_all
  from T2 h have b: "console (snd (logExecution ?F ''task-1'' sample_failure)) = []"
    by simp
  have c: "map is_update (issued ?T (snd (executeKeepaliveTask ?T sample_task)))
       = [False, False, True]"
    by (simp add: executeKeepaliveTask_def keepalive_try_def requestOptions_def AbortSignal_timeout_def
          truthy_def
          catch_block_def record_run_def logExecution_def
          ExecutionLogModel_create_def DatabaseUtils_createExecutionLog_def
          DatabaseUtils_updateTask_def storage_turn_def fetch_def Date_now_def console_error_def
          message_of_def succeeded_def failed_def stamp_def no_patch_def apply_patch_def
          issued_def Let_def
          sample_env_def log_write_throws_def sample_task_def sample_config_def)
  from h(1,2) a b c show ?thesis by blast
qed

text \<open>
  A log write that fails by returning an unsuccessful result is not logged: on the sample
  data, with the storage layer reporting \<open>disk full\<close> for the log write, no log is stored
  and the console stays empty, in \<open>logExecution\<close> and in the whole run.
\<close>

theorem unsuccessful_log_write_not_logged:
  "storage (sample_env log_write_fails (Rejected (Error ''X'')))
      (storage_calls (sample_env log_write_fails (Rejected (Error ''X'')))) = Failing ''disk full''
   \<and> execution_logs (snd (logExecution (sample_env log_write_fails (Rejected (Error ''X'')))
        ''task-1'' sample_failure)) = []
   \<and> console (snd (logExecution (sample_env log_write_fails (Rejected (Error ''X'')))
        ''task-1'' sample_failure)) = []
   \<and> console (snd (executeKeepaliveTask (sample_env log_write_fails (Rejected (Error ''X'')))
        sample_task)) = []
   \<and> execution_logs (snd (executeKeepaliveTask (sample_env log_write_fails (Rejected (Error ''X'')))
        sample_task)) = []"
  by (simp add: executeKeepaliveTask_def keepalive_try_def requestOptions_def AbortSignal_timeout_def
          truthy_def
      catch_block_def record_run_def logExecution_def
      ExecutionLogModel_create_def DatabaseUtils_createExecutionLog_def
      DatabaseUtils_updateTask_def storage_turn_def fetch_def Date_now_def console_error_def
      message_of_def succeeded_def failed_def stamp_def no_patch_def apply_patch_def
      issued_def Let_def
      sample_env_def log_write_fails_def sample_task_def sample_config_def sample_failure_def)

section \<open>Type mismatch\<close>

text \<open>
  C7. For every task whose type is not the one the executor is for, whatever the storage
  layer does: the executor sends no request; the mismatch error is caught; exactly the
  write of a failure log for the task, carrying the mismatch message, and the update of
  the task to \<open>failure\<close> at the current time are issued; with a healthy storage layer the
  log is stored and the stored task has \<open>last_status = failure\<close>. The run returns the
  failure result carrying the mismatch message unless that update throws; if it throws,
  the exception of the storage layer leaves the executor.
\<close>

theorem type_mismatch_is_failed_run:
  "(task_type task \<noteq> Keepalive \<longrightarrow>
           (\<exists>r log p.
              \<not> success r \<and> error r = Some not_keepalive \<and> statusCode r = None
              \<and> fst (executeKeepaliveTask env task) =
                  (case storage env (Suc (storage_calls env)) of
                     Throwing m \<Rightarrow> Rejected (Error m) | _ \<Rightarrow> Resolved r)
              \<and> issued env (snd (executeKeepaliveTask env task)) = [CreateExecutionLog log, UpdateTask (ident task) p]
              \<and> task_id log = Some (ident task) \<and> status log = Failure
              \<and> error_message log = Some not_keepalive \<and> details log = Some r
              \<and> set_last_status p = Some Failure
              \<and> set_last_executed p = Some (clock env (clock_reads (snd (executeKeepaliveTask env task)) - 1))
              \<and> (storage env (storage_calls env) = Healthy \<longrightarrow>
                    execution_logs (snd (executeKeepaliveTask env task)) = log # execution_logs env)
              \<and> (\<forall>t. tasks env (ident task) = Some t
                       \<and> storage env (Suc (storage_calls env)) = Healthy \<longrightarrow>
                    tasks (snd (executeKeepaliveTask env task)) (ident task) =
                      Some (t\<lparr>last_executed := Some (clock env (clock_reads (snd (executeKeepaliveTask env task)) - 1)),
                              last_status := Some Failure\<rparr>))))
   \<and> (task_type task \<noteq> Notification \<longrightarrow>
           (\<exists>r log p.
              \<not> success r \<and> error r = Some not_notification \<and> statusCode r = None
              \<and> fst (executeNotificationTask env task) =
                  (case storage env (Suc (storage_calls env)) of
                     Throwing m \<Rightarrow> Rejected (Error m) | _ \<Rightarrow> Resolved r)
              \<and> issued env (snd (executeNotificationTask env task)) = [CreateExecutionLog log, UpdateTask (ident task) p]
              \<and> task_id log = Some (ident task) \<and> status log = Failure
              \<and> error_message log = Some not_notification \<and> details log = Some r
              \<and> set_last_status p = Some Failure
              \<and> set_last_executed p = Some (clock env (clock_reads (snd (executeNotificationTask env task)) - 1))
              \<and> (storage env (storage_calls env) = Healthy \<longrightarrow>
                    execution_logs (snd (executeNotificationTask env task)) = log # execution_logs env)
              \<and> (\<forall>t. tasks env (ident task) = Some t
                       \<and> storage env (Suc (storage_calls env)) = Healthy \<longrightarrow>
                    tasks (snd (executeNotificationTask env task)) (ident task) =
                      Some (t\<lparr>last_executed := Some (clock env (clock_reads (snd (executeNotificationTask env task)) - 1)),
                              last_status := Some Failure\<rparr>))))"
proof -
  have k: "?thesis" if "storage env (Suc (storage_calls env)) = h" for h
    using that
    by (cases h; cases "storage env (storage_calls env)")
       (auto simp add: keepalive_wrong_type notification_wrong_type record_run_eq issued_def
          log_of_def stamp_def no_patch_def apply_patch_def)
  then show ?thesis by blast
qed

theorem type_mismatch_is_failed_run_witness:
  "task_type sample_notice \<noteq> Keepalive \<and> task_type sample_task \<noteq> Notification
   \<and> storage (stored_env sample_notice all_healthy (Rejected NonError))
        (storage_calls (stored_env sample_notice all_healthy (Rejected NonError))) = Healthy
   \<and> storage (stored_env sample_notice all_healthy (Rejected NonError))
        (Suc (storage_calls (stored_env sample_notice all_healthy (Rejected NonError)))) = Healthy
   \<and> tasks (stored_env sample_notice all_healthy (Rejected NonError)) (ident sample_notice)
       = Some sample_notice
   \<and> tasks (stored_env sample_task all_healthy (Rejected NonError)) (ident sample_task)
       = Some sample_task
   \<and> fst (executeKeepaliveTask (stored_env sample_notice all_healthy (Rejected NonError)) sample_notice)
       = Resolved \<lparr>success = False, responseTime = 10, statusCode = None,
                   error = Some not_keepalive, timestamp = 1020\<rparr>
   \<and> tasks (snd (executeKeepaliveTask (stored_env sample_notice all_healthy (Rejected NonError))
                    sample_notice)) ''task-2''
       = Some (sample_notice\<lparr>last_executed := Some 1040, last_status := Some Failure\<rparr>)
   \<and> map status (execution_logs
         (snd (executeKeepaliveTask (stored_env sample_notice all_healthy (Rejected NonError))
                 sample_notice))) = [Failure]
   \<and> map error_message (execution_logs
         (snd (executeKeepaliveTask (stored_env sample_notice all_healthy (Rejected NonError))
                 sample_notice))) = [Some not_keepalive]
   \<and> map is_update (issued (stored_env sample_notice all_healthy (Rejected NonError))
         (snd (executeKeepaliveTask (stored_env sample_notice all_healthy (Rejected NonError))
                 sample_notice))) = [False, True]
   \<and> fst (executeNotificationTask (stored_env sample_task all_healthy (Rejected NonError)) sample_task)
       = Resolved \<lparr>success = False, responseTime = 10, statusCode = None,
                   error = Some not_notification, timestamp = 1020\<rparr>
   \<and> tasks (snd (executeNotificationTask (stored_env sample_task all_healthy (Rejected NonError))
                    sample_task)) ''task-1''
       = Some (sample_task\<lparr>last_executed := Some 1040, last_status := Some Failure\<rparr>)"
proof -
  let ?K = "stored_env sample_notice all_healthy (Rejected NonError)"
  let ?N = "stored_env sample_task all_healthy (Rejected NonError)"
  have t: "task_type sample_notice \<noteq> Keepalive" "task_type sample_task \<noteq> Notification"
    "ident sample_notice = ''task-2''" "ident sample_task = ''task-1''"
    by (simp_all add: sample_notice_def sample_task_def)
  have h: "storage ?K (storage_calls ?K) = Healthy" "storage ?K (Suc (storage_calls ?K)) = Healthy"
    "storage ?N (storage_calls ?N) = Healthy" "storage ?N (Suc (storage_calls ?N)) = Healthy"
    "tasks ?K (ident sample_notice) = Some sample_notice"
    "tasks ?N (ident sample_task) = Some sample_task"
    "execution_logs ?K = []"
    by (simp_all add: stored_env_def sample_env_def all_healthy_def)
  have ck: "clock ?K (clock_reads (snd (executeKeepaliveTask ?K sample_notice)) - 1) = 1040"
    "fst (executeKeepaliveTask ?K sample_notice)
       = Resolved \<lparr>success = False, responseTime = 10, statusCode = None,
                   error = Some not_keepalive, timestamp = 1020\<rparr>"
    "map is_update (issued ?K (snd (executeKeepaliveTask ?K sample_notice))) = [False, True]"
    by (simp_all add: executeKeepaliveTask_def keepalive_try_def catch_block_def record_run_def
          logExecution_def ExecutionLogModel_create_def DatabaseUtils_createExecutionLog_def
          DatabaseUtils_updateTask_def storage_turn_def Date_now_def message_of_def
          succeeded_def failed_def stamp_def no_patch_def apply_patch_def issued_def Let_def
          stored_env_def sample_env_def all_healthy_def sample_notice_def)
  have cn: "clock ?N (clock_reads (snd (executeNotificationTask ?N sample_task)) - 1) = 1040"
    "fst (executeNotificationTask ?N sample_task)
       = Resolved \<lparr>success = False, responseTime = 10, statusCode = None,
                   error = Some not_notification, timestamp = 1020\<rparr>"
    by (simp_all add: executeNotificationTask_def notification_try_def catch_block_def
          record_run_def logExecution_def ExecutionLogModel_create_def
          DatabaseUtils_createExecutionLog_def DatabaseUtils_updateTask_def storage_turn_def
          Date_now_def message_of_def succeeded_def failed_def stamp_def no_patch_def
          apply_patch_def issued_def Let_def
          stored_env_def sample_env_def all_healthy_def sample_task_def)
  from type_mismatch_is_failed_run[of sample_notice ?K] t(1) h(1,2,5)
  obtain log where k:
    "status log = Failure" "error_message log = Some not_keepalive"
    "execution_logs (snd (executeKeepaliveTask ?K sample_notice)) = log # execution_logs ?K"
    "tasks (snd (executeKeepaliveTask ?K sample_notice)) (ident sample_notice) =
       Some (sample_notice\<lparr>last_executed :=
               Some (clock ?K (clock_reads (snd (executeKeepaliveTask ?K sample_notice)) - 1)),
             last_status := Some Failure\<rparr>)"
    by blast
  from type_mismatch_is_failed_run[of sample_task ?N] t(2) h(3,4,6)
  have n: "tasks (snd (executeNotificationTask ?N sample_task)) (ident sample_task) =
       Some (sample_task\<lparr>last_executed :=
               Some (clock ?N (clock_reads (snd (executeNotificationTask ?N sample_task)) - 1)),
             last_status := Some Failure\<rparr>)"
    by blast
  have k': "tasks (snd (executeKeepaliveTask ?K sample_notice)) ''task-2''
       = Some (sample_notice\<lparr>last_executed := Some 1040, last_status := Some Failure\<rparr>)"
    "map status (execution_logs (snd (executeKeepaliveTask ?K sample_notice))) = [Failure]"
    "map error_message (execution_logs (snd (executeKeepaliveTask ?K sample_notice)))
       = [Some not_keepalive]"
    using k ck(1) t(3) h(7) by simp_all
  have n': "tasks (snd (executeNotificationTask ?N sample_task)) ''task-1''
       = Some (sample_task\<lparr>last_executed := Some 1040, last_status := Some Failure\<rparr>)"
    using n cn(1) t(4) by simp
  from t(1,2) h(1,2,5,6) ck(2,3) cn(2) k' n' show ?thesis by blast
qed

text \<open>
  C7, as first stated, fails when the update in the \<^verbatim>\<open>catch\<close> block throws: on the sample
  data, with the storage layer throwing \<open>db down\<close> at that update, either executor called
  on a task of the other type returns no result, and the exception of the storage layer
  leaves it.
\<close>

theorem mismatch_update_exception_escapes:
  "task_type sample_notice \<noteq> Keepalive
   \<and> fst (executeKeepaliveTask (stored_env sample_notice update_throws (Rejected NonError))
             sample_notice) = Rejected (Error ''db down'')
   \<and> task_type sample_task \<noteq> Notification
   \<and> fst (executeNotificationTask (stored_env sample_task update_throws (Rejected NonError))
             sample_task) = Rejected (Error ''db down'')"
  by (simp add: executeKeepaliveTask_def keepalive_try_def executeNotificationTask_def
      notification_try_def catch_block_def record_run_def logExecution_def
      ExecutionLogModel_create_def DatabaseUtils_createExecutionLog_def
      DatabaseUtils_updateTask_def storage_turn_def Date_now_def message_of_def
      succeeded_def failed_def stamp_def no_patch_def apply_patch_def Let_def
      stored_env_def sample_env_def update_throws_def sample_notice_def sample_task_def)

section \<open>No channel enabled\<close>

text \<open>
  C8. For every user whose notification settings have no channel enabled (email, webhook
  and push all off), and likewise for absent settings, \<open>sendFailureAlert\<close> returns
  \<open>success = true\<close> and makes no delivery attempt.
\<close>

theorem no_channel_is_success:
  assumes "\<not> email_enabled s" and "\<not> webhook_enabled s" and "\<not> notifyx_enabled s"
  shows "sendFailureAlert default_threshold overall deliver (Some s) rows task
           = \<lparr>alert_success = True, attempts = []\<rparr>
       \<and> sendFailureAlert default_threshold overall deliver None rows task
           = \<lparr>alert_success = True, attempts = []\<rparr>"
  using assms by (simp add: sendFailureAlert_def enabled_channels_def Let_def)

theorem no_channel_is_success_witness:
  "\<not> email_enabled (sample_settings False) \<and> \<not> webhook_enabled (sample_settings False)
   \<and> \<not> notifyx_enabled (sample_settings False)
   \<and> shouldAlertOnFailure three_failures (ident sample_task) (failure_threshold (sample_settings False))
   \<and> alert_success (sendFailureAlert 3 (\<lambda>bs. False) (\<lambda>c. False) (Some (sample_settings False))
                       three_failures sample_task)
   \<and> attempts (sendFailureAlert 3 (\<lambda>bs. False) (\<lambda>c. False) (Some (sample_settings False))
                  three_failures sample_task) = []"
proof -
  have h: "\<not> email_enabled (sample_settings False)" "\<not> webhook_enabled (sample_settings False)"
    "\<not> notifyx_enabled (sample_settings False)"
    by (simp_all add: sample_settings_def)
  have f: "shouldAlertOnFailure three_failures (ident sample_task) (failure_threshold (sample_settings False))"
    by (simp add: shouldAlertOnFailure_def getExecutionLogsByTaskId_def task_history_def
          three_failures_def sample_log_def sample_settings_def sample_task_def eval_nat_numeral)
  from no_channel_is_success[OF h, of 3 "\<lambda>bs. False" "\<lambda>c. False" three_failures sample_task] h f
  show ?thesis by simp
qed

section \<open>Ownership\<close>



end
